theory Spec2Isabelle
  imports Complex_Main "HOL-Library.AList"
begin

section \<open>Floating-point values as the estimation code sees them\<close>

text \<open>
  The estimation code works on NumPy \<open>float64\<close> values. A value is either a finite
  number, one of the two infinities, or NaN (which pandas also uses as the marker of a
  missing cell). Finite values are idealised as reals: overflow and the sign of zero are
  not modelled, and rounding is modelled only where it decides which branch the code takes
  (the sum \<open>1 + phi\<close> of the half-life, \<open>fadd64\<close> below). The special values follow IEEE 754
  as NumPy implements it; in particular a division by zero does not raise, it yields an
  infinity or NaN.
\<close>

datatype pyfloat = Fin real | PInf | NInf | NaN

fun isnan :: "pyfloat \<Rightarrow> bool" where
  "isnan NaN = True"
| "isnan _ = False"

fun isfinite :: "pyfloat \<Rightarrow> bool" where
  "isfinite (Fin _) = True"
| "isfinite _ = False"

fun fneg :: "pyfloat \<Rightarrow> pyfloat" where
  "fneg (Fin a) = Fin (- a)"
| "fneg PInf = NInf"
| "fneg NInf = PInf"
| "fneg NaN = NaN"

fun fadd :: "pyfloat \<Rightarrow> pyfloat \<Rightarrow> pyfloat" where
  "fadd NaN _ = NaN"
| "fadd _ NaN = NaN"
| "fadd (Fin a) (Fin b) = Fin (a + b)"
| "fadd PInf NInf = NaN"
| "fadd NInf PInf = NaN"
| "fadd PInf _ = PInf"
| "fadd _ PInf = PInf"
| "fadd NInf _ = NInf"
| "fadd _ NInf = NInf"

definition fsub :: "pyfloat \<Rightarrow> pyfloat \<Rightarrow> pyfloat" where
  "fsub a b = fadd a (fneg b)"

text \<open>The sign of an infinity times a finite factor; zero times infinity is NaN.\<close>

fun inf_times :: "bool \<Rightarrow> real \<Rightarrow> pyfloat" where
  "inf_times pos b =
     (if b = 0 then NaN else if (0 < b) = pos then PInf else NInf)"

fun fmul :: "pyfloat \<Rightarrow> pyfloat \<Rightarrow> pyfloat" where
  "fmul NaN _ = NaN"
| "fmul _ NaN = NaN"
| "fmul (Fin a) (Fin b) = Fin (a * b)"
| "fmul PInf (Fin b) = inf_times True b"
| "fmul NInf (Fin b) = inf_times False b"
| "fmul (Fin a) PInf = inf_times True a"
| "fmul (Fin a) NInf = inf_times False a"
| "fmul PInf PInf = PInf"
| "fmul NInf NInf = PInf"
| "fmul PInf NInf = NInf"
| "fmul NInf PInf = NInf"

fun fdiv :: "pyfloat \<Rightarrow> pyfloat \<Rightarrow> pyfloat" where
  "fdiv NaN _ = NaN"
| "fdiv _ NaN = NaN"
| "fdiv (Fin a) (Fin b) =
     (if b \<noteq> 0 then Fin (a / b)
      else if a = 0 then NaN
      else if 0 < a then PInf else NInf)"
| "fdiv (Fin a) _ = Fin 0"
| "fdiv PInf (Fin b) = (if 0 \<le> b then PInf else NInf)"
| "fdiv NInf (Fin b) = (if 0 \<le> b then NInf else PInf)"
| "fdiv _ _ = NaN"

fun fexp :: "pyfloat \<Rightarrow> pyfloat" where
  "fexp (Fin a) = Fin (exp a)"
| "fexp PInf = PInf"
| "fexp NInf = Fin 0"
| "fexp NaN = NaN"

fun flog :: "pyfloat \<Rightarrow> pyfloat" where
  "flog (Fin a) = (if 0 < a then Fin (ln a) else if a = 0 then NInf else NaN)"
| "flog PInf = PInf"
| "flog _ = NaN"

fun fsqrt :: "pyfloat \<Rightarrow> pyfloat" where
  "fsqrt (Fin a) = (if 0 \<le> a then Fin (sqrt a) else NaN)"
| "fsqrt PInf = PInf"
| "fsqrt _ = NaN"

text \<open>Comparisons: every comparison with NaN is false.\<close>

fun flt :: "pyfloat \<Rightarrow> pyfloat \<Rightarrow> bool" where
  "flt NaN _ = False"
| "flt _ NaN = False"
| "flt (Fin a) (Fin b) = (a < b)"
| "flt NInf NInf = False"
| "flt NInf _ = True"
| "flt PInf _ = False"
| "flt (Fin a) PInf = True"
| "flt (Fin a) NInf = False"

definition fgt :: "pyfloat \<Rightarrow> pyfloat \<Rightarrow> bool" where
  "fgt a b = flt b a"

fun fle :: "pyfloat \<Rightarrow> pyfloat \<Rightarrow> bool" where
  "fle NaN _ = False"
| "fle _ NaN = False"
| "fle (Fin a) (Fin b) = (a \<le> b)"
| "fle NInf _ = True"
| "fle _ PInf = True"
| "fle _ _ = False"

text \<open>\<open>Series.sum()\<close> and \<open>np.nansum\<close>: the sum of the values that are not NaN.\<close>

definition nansum :: "pyfloat list \<Rightarrow> pyfloat" where
  "nansum xs = foldl fadd (Fin 0) (filter (\<lambda>x. \<not> isnan x) xs)"

text \<open>
  Rounding to \<open>float64\<close>. A finite non-zero \<open>float64\<close> in the normal range is an integer
  multiple of \<open>2 ^ (e - 52)\<close>, where \<open>2 ^ e\<close> is the power of two at or below its magnitude;
  IEEE 754 addition returns the multiple nearest to the exact sum, and of two equally near
  ones the even multiple. \<open>round53\<close> is that rounding (overflow and subnormal results are
  not modelled: the sum \<open>1 + phi\<close> of a \<open>float64\<close> \<open>phi\<close> is zero or in the normal range), and
  \<open>fadd64\<close> is the addition of two \<open>float64\<close> values with its result rounded.
\<close>

definition round_half_even :: "real \<Rightarrow> int" where
  "round_half_even x =
     (let f = \<lfloor>x\<rfloor> in
      if x - real_of_int f < 1 / 2 then f
      else if 1 / 2 < x - real_of_int f then f + 1
      else if even f then f else f + 1)"

definition round53 :: "real \<Rightarrow> real" where
  "round53 x =
     (if x = 0 then 0
      else real_of_int (round_half_even (x * 2 powr (52 - real_of_int \<lfloor>log 2 \<bar>x\<bar>\<rfloor>)))
           * 2 powr (real_of_int \<lfloor>log 2 \<bar>x\<bar>\<rfloor> - 52))"

definition fadd64 :: "pyfloat \<Rightarrow> pyfloat \<Rightarrow> pyfloat" where
  "fadd64 a b = (case fadd a b of Fin x \<Rightarrow> Fin (round53 x) | v \<Rightarrow> v)"

section \<open>Semi-elasticity and its delta-method standard error\<close>

text \<open>
  \<open>its_levels.py\<close>, \<open>estimate_main_spec\<close> (lines 174--176) and \<open>_delta_method_se\<close>:
  \<^verbatim>\<open>semi_elasticity = (np.exp(0.10 * beta) - 1) * 100\<close> and
  \<^verbatim>\<open>derivative = 10 * np.exp(0.10 * beta); return derivative * se_beta\<close>.
\<close>

definition semi_elasticity :: "pyfloat \<Rightarrow> pyfloat" where
  "semi_elasticity beta = fmul (fsub (fexp (fmul (Fin (1 / 10)) beta)) (Fin 1)) (Fin 100)"

definition delta_method_se :: "pyfloat \<Rightarrow> pyfloat \<Rightarrow> pyfloat" where
  "delta_method_se beta se_beta =
     (let derivative = fmul (Fin 10) (fexp (fmul (Fin (1 / 10)) beta))
      in fmul derivative se_beta)"


section \<open>Errors, dictionaries and data frames\<close>

text \<open>
  Every exception the modelled code can raise is a value. \<open>LibraryError\<close> stands for an
  exception raised inside statsmodels or NumPy (for instance on an empty sample).
\<close>

datatype error =
  KeyError string | PatsyError string | ValueError | IndexError | TypeError | LibraryError

definition bind_err :: "error + 'a \<Rightarrow> ('a \<Rightarrow> error + 'b) \<Rightarrow> error + 'b" where
  "bind_err m f = (case m of Inl e \<Rightarrow> Inl e | Inr x \<Rightarrow> f x)"

text \<open>
  A fitted regression as statsmodels returns it: coefficients, standard errors, p-values
  and confidence intervals by regressor name, the residuals and the two \<open>R\<^sup>2\<close> values.
\<close>

record fitres =
  params :: "(string \<times> pyfloat) list"
  bse :: "(string \<times> pyfloat) list"
  pvalues :: "(string \<times> pyfloat) list"
  conf_int :: "(string \<times> pyfloat \<times> pyfloat) list"
  resid :: "pyfloat list"
  rsquared :: pyfloat
  rsquared_adj :: pyfloat

text \<open>Python values stored in result dictionaries; a dictionary is an association list.\<close>

datatype pyval =
    VFloat pyfloat
  | VInt int
  | VBool bool
  | VStr string
  | VFloats "pyfloat list"
  | VModel fitres
  | VList "pyval list"
  | VDict "(string \<times> pyval) list"
  | VNone

type_synonym pydict = "(string \<times> pyval) list"

definition getitem :: "(string \<times> 'a) list \<Rightarrow> string \<Rightarrow> error + 'a" where
  "getitem d k = (case map_of d k of None \<Rightarrow> Inl (KeyError k) | Some v \<Rightarrow> Inr v)"

definition get_or :: "('k \<times> 'a) list \<Rightarrow> 'k \<Rightarrow> 'a \<Rightarrow> 'a" where
  "get_or d k dflt = (case map_of d k of None \<Rightarrow> dflt | Some v \<Rightarrow> v)"

text \<open>
  A data frame holds named numeric columns of one common length \<open>nrows\<close>; a missing cell is
  NaN. Rows are addressed by position, which is also their index label in the modelled
  code (every frame is re-indexed \<open>0..n-1\<close> when it is loaded).
\<close>

record frame =
  nrows :: nat
  columns :: "(string \<times> pyfloat list) list"

definition has_col :: "frame \<Rightarrow> string \<Rightarrow> bool" where
  "has_col fr c = (map_of (columns fr) c \<noteq> None)"

definition get_col :: "frame \<Rightarrow> string \<Rightarrow> error + pyfloat list" where
  "get_col fr c = getitem (columns fr) c"

definition set_col :: "string \<Rightarrow> pyfloat list \<Rightarrow> frame \<Rightarrow> frame" where
  "set_col c v fr = fr\<lparr>columns := AList.update c v (columns fr)\<rparr>"

text \<open>\<open>Series.shift(k)\<close>: values move down by \<open>k\<close> rows (up for negative \<open>k\<close>), NaN fills the gap.\<close>

definition shift :: "int \<Rightarrow> pyfloat list \<Rightarrow> pyfloat list" where
  "shift k xs =
     (let n = length xs in
      if 0 \<le> k then replicate (min (nat k) n) NaN @ take (n - nat k) xs
      else drop (nat (- k)) xs @ replicate (min (nat (- k)) n) NaN)"

text \<open>\<open>Series.diff()\<close>: each value minus the one before; the first is NaN.\<close>

definition diff :: "pyfloat list \<Rightarrow> pyfloat list" where
  "diff xs = map2 fsub xs (shift 1 xs)"

definition select_rows :: "nat list \<Rightarrow> frame \<Rightarrow> frame" where
  "select_rows keep fr =
     \<lparr>nrows = length keep,
      columns = map (\<lambda>(c, v). (c, map (nth v) keep)) (columns fr)\<rparr>"

definition row_complete :: "pyfloat list list \<Rightarrow> nat \<Rightarrow> bool" where
  "row_complete cols i = list_all (\<lambda>v. \<not> isnan (v ! i)) cols"

definition complete_rows :: "pyfloat list list \<Rightarrow> nat \<Rightarrow> nat list" where
  "complete_rows cols n = filter (row_complete cols) [0..<n]"

text \<open>\<open>DataFrame.dropna()\<close> drops every row with a NaN in any column of the frame.\<close>

definition dropna :: "frame \<Rightarrow> frame" where
  "dropna fr = select_rows (complete_rows (map snd (columns fr)) (nrows fr)) fr"

text \<open>\<open>DataFrame.dropna(subset=cs)\<close> looks at the named columns only; a missing name raises.\<close>

fun get_cols :: "frame \<Rightarrow> string list \<Rightarrow> error + pyfloat list list" where
  "get_cols fr [] = Inr []"
| "get_cols fr (c # cs) =
     bind_err (get_col fr c) (\<lambda>v. bind_err (get_cols fr cs) (\<lambda>vs. Inr (v # vs)))"

definition dropna_subset :: "string list \<Rightarrow> frame \<Rightarrow> error + frame" where
  "dropna_subset cs fr =
     bind_err (get_cols fr cs) (\<lambda>vs. Inr (select_rows (complete_rows vs (nrows fr)) fr))"

text \<open>
  A design as patsy's \<open>dmatrices\<close> builds it from a formula \<open>lhs ~ rhs\<^sub>1 + ... + rhs\<^sub>k\<close>:
  the outcome vector and the regressor matrix (by rows) with an intercept column first.
  Repeated terms count once (at their first place), a column the frame lacks raises, and
  rows with a NaN in a column of the formula are dropped.
\<close>

record design =
  endog :: "pyfloat list"
  exog_names :: "string list"
  exog :: "pyfloat list list"

definition dmatrices :: "string \<Rightarrow> string list \<Rightarrow> frame \<Rightarrow> error + design" where
  "dmatrices lhs rhs fr =
     (let terms = rev (remdups (rev rhs)) in
      case filter (\<lambda>c. \<not> has_col fr c) (lhs # terms) of
        c # _ \<Rightarrow> Inl (PatsyError c)
      | [] \<Rightarrow>
          bind_err (get_col fr lhs) (\<lambda>y.
          bind_err (get_cols fr terms) (\<lambda>xs.
            let keep = complete_rows (y # xs) (nrows fr) in
            Inr \<lparr>endog = map (nth y) keep,
                 exog_names = ''Intercept'' # terms,
                 exog = map (\<lambda>i. Fin 1 # map (\<lambda>v. v ! i) xs) keep\<rparr>)))"

section \<open>The numerical libraries\<close>

text \<open>
  statsmodels and NumPy are outside the repository. Their functions are parameters of the
  model, collected in one record: ordinary least squares, the same fit with a
  Bartlett-kernel HAC covariance of a given bandwidth, the augmented Dickey--Fuller test
  (statistic and p-value), the Johansen test, the residual diagnostics, the sample
  correlation, percentiles, and statsmodels' \<open>add_constant\<close>. Each of them may raise, which
  is the \<open>Inl\<close> of its result. The last field is the platform's floating-point power:
  \<open>bandwidth_power n\<close> is the \<open>float64\<close> value of \<^verbatim>\<open>(n/100) ** (2/9)\<close>, which the C library
  computes and which need not be the correctly rounded real power.
\<close>

record johansen =
  lr1 :: "pyfloat list"
  cvt :: "pyfloat list list"
  lr2 :: "pyfloat list"
  cvm :: "pyfloat list list"

record numlib =
  ols_fit :: "design \<Rightarrow> error + fitres"
  hac_fit :: "design \<Rightarrow> nat \<Rightarrow> error + fitres"
  adfuller :: "pyfloat list \<Rightarrow> error + pyfloat \<times> pyfloat"
  coint_johansen :: "pyfloat list list \<Rightarrow> int \<Rightarrow> int \<Rightarrow> error + johansen"
  acorr_ljungbox :: "pyfloat list \<Rightarrow> nat \<Rightarrow> error + pyfloat list \<times> pyfloat list"
  het_white :: "pyfloat list \<Rightarrow> pyfloat list list \<Rightarrow> error + pyfloat \<times> pyfloat"
  durbin_watson :: "pyfloat list \<Rightarrow> pyfloat"
  corrcoef :: "pyfloat list \<Rightarrow> pyfloat list \<Rightarrow> pyfloat"
  percentile :: "pyfloat list \<Rightarrow> real \<Rightarrow> pyfloat"
  add_constant :: "design \<Rightarrow> design"
  bandwidth_power :: "nat \<Rightarrow> real"

text \<open>
  The automatic bandwidth \<^verbatim>\<open>int(4 * (n/100) ** (2/9))\<close>. Multiplying a \<open>float64\<close> by four is
  exact, and \<open>int\<close> truncates; the power of a non-negative number is not negative, where
  truncation is the floor.
\<close>

definition andrews_bandwidth :: "numlib \<Rightarrow> nat \<Rightarrow> nat" where
  "andrews_bandwidth lib n = nat \<lfloor>4 * bandwidth_power lib n\<rfloor>"


section \<open>Cointegration and the error-correction model (\<open>11_ecm.py\<close>)\<close>

text \<open>
  \<open>engle_granger\<close>: regress \<open>y\<close> on \<open>xvars\<close> over the rows where all of them are present, then
  run the ADF test on the residuals. An exception of the ADF test is caught and reported as
  NaN statistic and p-value. The residual series keeps the labels of the rows it came from.
\<close>

definition engle_granger ::
  "numlib \<Rightarrow> frame \<Rightarrow> string \<Rightarrow> string list
     \<Rightarrow> error + pyfloat \<times> pyfloat \<times> (nat \<times> pyfloat) list" where
  "engle_granger lib df y xvars =
     bind_err (get_cols df (y # xvars)) (\<lambda>vs.
       let keep = complete_rows vs (nrows df);
           use = select_rows keep df in
       if keep = [] then Inr (NaN, NaN, [])
       else
         bind_err (dmatrices y xvars use) (\<lambda>d.
         bind_err (ols_fit lib d) (\<lambda>model.
           let res = zip keep (resid model) in
           case adfuller lib (resid model) of
             Inr (stat, pval) \<Rightarrow> Inr (stat, pval, res)
           | Inl _ \<Rightarrow> Inr (NaN, NaN, res))))"

text \<open>
  The half-life of \<open>estimate_ecm\<close> (lines 302--309):
  \<^verbatim>\<open>if not np.isnan(phi) and (1 + phi) > 0: half_life = np.log(0.5) / np.log(1 + phi)\<close>.
  The sum \<open>1 + phi\<close> is a \<open>float64\<close> addition, so it is rounded: it is exactly \<open>1.0\<close> not
  only at \<open>phi = 0\<close> but for every \<open>phi\<close> of magnitude below about \<open>1.1e-16\<close>, and then the
  logarithm in the denominator is zero. NumPy divides by zero without raising, so the
  \<open>except\<close> branch of the source is never taken. The logarithms and the quotient are
  idealised as reals; their rounding does not change which of the cases applies.
\<close>

definition half_life_days :: "pyfloat \<Rightarrow> pyfloat" where
  "half_life_days phi =
     (if \<not> isnan phi \<and> fgt (fadd64 (Fin 1) phi) (Fin 0)
      then fdiv (flog (Fin (1 / 2))) (flog (fadd64 (Fin 1) phi))
      else NaN)"

text \<open>The result of \<open>estimate_ecm\<close> when fewer than 30 rows are usable; it has no \<open>bw\<close> key.\<close>

definition ecm_insufficient :: "nat \<Rightarrow> pydict" where
  "ecm_insufficient n =
     [(''phi'', VFloat NaN), (''phi_se'', VFloat NaN), (''phi_p'', VFloat NaN),
      (''psi'', VFloat NaN), (''psi_se'', VFloat NaN), (''psi_p'', VFloat NaN),
      (''n'', VInt (int n)), (''half_life_days'', VFloat NaN)]"

text \<open>Adding the first difference of a column when the column is present.\<close>

definition add_diff_term :: "string \<Rightarrow> string \<Rightarrow> frame \<times> string list \<Rightarrow> frame \<times> string list" where
  "add_diff_term src dst ft =
     (case map_of (columns (fst ft)) src of
        None \<Rightarrow> ft
      | Some v \<Rightarrow> (set_col dst (diff v) (fst ft), snd ft @ [dst]))"

definition ecm_bandwidth :: "numlib \<Rightarrow> nat \<Rightarrow> nat" where
  "ecm_bandwidth lib n = min 7 (max 1 (andrews_bandwidth lib n))"

definition ecm_fitted :: "fitres \<Rightarrow> nat \<Rightarrow> nat \<Rightarrow> pydict" where
  "ecm_fitted res n bw =
     (let phi = get_or (params res) ''ECT_lag1'' NaN;
          phi_se = get_or (bse res) ''ECT_lag1'' NaN;
          phi_p = get_or (pvalues res) ''ECT_lag1'' NaN;
          psi = get_or (params res) ''d_A_t_clean'' NaN;
          psi_se = get_or (bse res) ''d_A_t_clean'' NaN;
          psi_p = get_or (pvalues res) ''d_A_t_clean'' NaN
      in [(''phi'', VFloat phi), (''phi_se'', VFloat phi_se), (''phi_p'', VFloat phi_p),
          (''psi'', VFloat psi), (''psi_se'', VFloat psi_se), (''psi_p'', VFloat psi_p),
          (''n'', VInt (int n)), (''bw'', VInt (int bw)),
          (''half_life_days'', VFloat (half_life_days phi))])"

text \<open>
  \<open>estimate_ecm\<close> first adds the lagged residual and the differences of the regressors that
  are present; the residuals are aligned to the rows by label, a row without one gets NaN.
\<close>

definition ecm_terms_frame :: "frame \<Rightarrow> (nat \<times> pyfloat) list \<Rightarrow> frame \<times> string list" where
  "ecm_terms_frame df res =
     (let ect = map (\<lambda>i. get_or res i NaN) [0..<nrows df];
          frame1 = set_col ''ECT_lag1'' (shift 1 ect) (set_col ''ECT'' ect df)
      in add_diff_term ''D_star'' ''d_D_star''
           (add_diff_term ''A_t_clean'' ''d_A_t_clean'' (frame1, [])))"

text \<open>Then the outcome difference (computed when the panel lacks it) and its first lag.\<close>

definition ecm_outcome_frame :: "frame \<Rightarrow> error + frame" where
  "ecm_outcome_frame fr =
     bind_err
       (if has_col fr ''d_log_base_fee'' then Inr fr
        else bind_err (get_col fr ''log_base_fee'')
               (\<lambda>v. Inr (set_col ''d_log_base_fee'' (diff v) fr)))
       (\<lambda>frame2.
          bind_err (get_col frame2 ''d_log_base_fee'') (\<lambda>dy.
            Inr (set_col ''d_log_base_fee_lag1'' (shift 1 dy) frame2)))"

text \<open>
  The right-hand side of the formula (line 275). The controls are chosen by the columns
  present before the outcome difference is added.
\<close>

definition ecm_rhs :: "frame \<Rightarrow> (nat \<times> pyfloat) list \<Rightarrow> string list \<Rightarrow> string list" where
  "ecm_rhs df res event_controls =
     (let ft = ecm_terms_frame df res;
          terms = snd ft;
          controls = [''is_weekend'', ''is_month_end''] @ filter (has_col (fst ft)) event_controls;
          present_controls = filter (has_col (fst ft)) controls
      in [''ECT_lag1''] @ terms @ [''d_log_base_fee_lag1''] @ present_controls)"

text \<open>
  The usable rows (line 278, \<open>use\<close>): the rows of the extended frame in which the outcome
  difference, the lagged residual and the differenced regressors are all present.
\<close>

definition ecm_sample :: "frame \<Rightarrow> (nat \<times> pyfloat) list \<Rightarrow> error + frame" where
  "ecm_sample df res =
     (let ft = ecm_terms_frame df res in
      bind_err (ecm_outcome_frame (fst ft))
        (dropna_subset ([''d_log_base_fee'', ''ECT_lag1''] @ snd ft)))"

text \<open>
  \<open>estimate_ecm\<close>. The arguments \<open>y\<close> and \<open>xvars\<close> of the source are not used by its body and
  are left out.
\<close>

definition estimate_ecm ::
  "numlib \<Rightarrow> frame \<Rightarrow> (nat \<times> pyfloat) list \<Rightarrow> string list \<Rightarrow> error + pydict" where
  "estimate_ecm lib df res event_controls =
     bind_err (ecm_sample df res) (\<lambda>use.
       if nrows use < 30 then Inr (ecm_insufficient (nrows use))
       else
         bind_err (dmatrices ''d_log_base_fee'' (ecm_rhs df res event_controls) use) (\<lambda>d.
         bind_err (hac_fit lib d (ecm_bandwidth lib (nrows use))) (\<lambda>r.
           Inr (ecm_fitted r (nrows use) (ecm_bandwidth lib (nrows use))))))"

text \<open>
  \<open>johansen_tests\<close>: with fewer than 50 complete rows, or when the test raises, the result is
  the empty table.
\<close>

definition nth_err :: "'a list \<Rightarrow> nat \<Rightarrow> error + 'a" where
  "nth_err xs i = (if i < length xs then Inr (xs ! i) else Inl IndexError)"

definition johansen_row ::
  "string \<Rightarrow> string \<Rightarrow> pyfloat list \<Rightarrow> pyfloat list list \<Rightarrow> nat \<Rightarrow> error + pydict" where
  "johansen_row null_label stat_type stats crit r =
     bind_err (nth_err stats r) (\<lambda>s.
     bind_err (nth_err crit r) (\<lambda>cv.
     bind_err (nth_err cv 0) (\<lambda>c90.
     bind_err (nth_err cv 1) (\<lambda>c95.
     bind_err (nth_err cv 2) (\<lambda>c99.
       Inr [(''sample'', VStr ''Full Post-London''), (''rank_null'', VStr null_label),
            (''stat_type'', VStr stat_type), (''stat'', VFloat s),
            (''crit_90'', VFloat c90), (''crit_95'', VFloat c95),
            (''crit_99'', VFloat c99)])))))"

definition johansen_rows :: "johansen \<Rightarrow> error + pydict list" where
  "johansen_rows joh =
     bind_err (johansen_row ''r<=0'' ''trace'' (lr1 joh) (cvt joh) 0) (\<lambda>t0.
     bind_err (johansen_row ''r=0'' ''max-eig'' (lr2 joh) (cvm joh) 0) (\<lambda>m0.
     bind_err (johansen_row ''r<=1'' ''trace'' (lr1 joh) (cvt joh) 1) (\<lambda>t1.
     bind_err (johansen_row ''r=1'' ''max-eig'' (lr2 joh) (cvm joh) 1) (\<lambda>m1.
       Inr [t0, m0, t1, m1]))))"

definition johansen_tests ::
  "numlib \<Rightarrow> frame \<Rightarrow> string list \<Rightarrow> int \<Rightarrow> int \<Rightarrow> error + pydict list" where
  "johansen_tests lib df series det_order k_ar_diff =
     bind_err (get_cols df series) (\<lambda>vs.
       let keep = complete_rows vs (nrows df) in
       if length keep < 50 then Inr []
       else
         (case bind_err
                 (coint_johansen lib (map (\<lambda>i. map (\<lambda>v. v ! i) vs) keep) det_order k_ar_diff)
                 johansen_rows of
            Inl _ \<Rightarrow> Inr []
          | Inr rows \<Rightarrow> Inr rows))"

text \<open>
  The part of \<open>main\<close> that decides whether an ECM is estimated (lines 555--564): the gate
  on the p-value \<open>eg_p\<close> of the full-sample Engle--Granger test, whose residuals are \<open>res\<close>.
\<close>

definition ecm_summary_default :: pydict where
  "ecm_summary_default =
     [(''phi'', VFloat NaN), (''phi_se'', VFloat NaN), (''phi_p'', VFloat NaN),
      (''psi'', VFloat NaN), (''psi_se'', VFloat NaN), (''psi_p'', VFloat NaN),
      (''n'', VInt 0), (''bw'', VFloat NaN), (''half_life_days'', VFloat NaN)]"

definition ecm_gate ::
  "numlib \<Rightarrow> frame \<Rightarrow> pyfloat \<Rightarrow> (nat \<times> pyfloat) list \<Rightarrow> error + pydict" where
  "ecm_gate lib df eg_p res =
     (if isfinite eg_p \<and> flt eg_p (Fin (5 / 100))
      then estimate_ecm lib df res []
      else Inr ecm_summary_default)"

text \<open>
  \<open>save_latex_ecm\<close> reads nine keys of the summary and renders three cells: an estimate with
  its significance stars and standard error, or \<open>N/A\<close> when the estimate is not finite.
  Number formatting is not modelled; a cell keeps the values it prints.
\<close>

datatype cell = NA | Shown pyfloat string pyfloat | Plain pyfloat

record ecm_table =
  phi_cell :: cell
  psi_cell :: cell
  hl_cell :: cell
  bw_cell :: cell
  n_cell :: pyval

definition stars :: "pyfloat \<Rightarrow> string" where
  "stars p =
     (if flt p (Fin (1 / 1000)) then ''***''
      else if flt p (Fin (1 / 100)) then ''**''
      else if flt p (Fin (5 / 100)) then ''*'' else [])"

fun as_float :: "pyval \<Rightarrow> error + pyfloat" where
  "as_float (VFloat x) = Inr x"
| "as_float (VInt i) = Inr (Fin (real_of_int i))"
| "as_float _ = Inl TypeError"

definition getnum :: "pydict \<Rightarrow> string \<Rightarrow> error + pyfloat" where
  "getnum d k = bind_err (getitem d k) as_float"

definition save_latex_ecm :: "pydict \<Rightarrow> error + ecm_table" where
  "save_latex_ecm res =
     bind_err (getnum res ''phi'') (\<lambda>phi.
     bind_err (getnum res ''phi_se'') (\<lambda>phi_se.
     bind_err (getnum res ''phi_p'') (\<lambda>phi_p.
     bind_err (getnum res ''psi'') (\<lambda>psi.
     bind_err (getnum res ''psi_se'') (\<lambda>psi_se.
     bind_err (getnum res ''psi_p'') (\<lambda>psi_p.
     bind_err (getitem res ''n'') (\<lambda>n.
     bind_err (getnum res ''bw'') (\<lambda>bw.
     bind_err (getnum res ''half_life_days'') (\<lambda>hl.
       Inr \<lparr>phi_cell = (if isfinite phi then Shown phi (stars phi_p) phi_se else NA),
            psi_cell = (if isfinite psi then Shown psi (stars psi_p) psi_se else NA),
            hl_cell = (if isfinite hl then Plain hl else NA),
            bw_cell = (if isfinite bw then Plain bw else NA),
            n_cell = n\<rparr>)))))))))"

text \<open>
  The ECM stage of the batch run: the gate, the estimation, and the rendering of its table
  (\<open>main\<close>, lines 555--564 and 626).
\<close>

definition ecm_stage ::
  "numlib \<Rightarrow> frame \<Rightarrow> pyfloat \<Rightarrow> (nat \<times> pyfloat) list \<Rightarrow> error + ecm_table" where
  "ecm_stage lib df eg_p res = bind_err (ecm_gate lib df eg_p res) save_latex_ecm"

section \<open>The levels estimator (\<open>its_levels.py\<close>)\<close>

text \<open>
  An \<open>ITSLevelsEstimator\<close> after construction: the prepared panel, the names of the outcome
  and treatment columns, and the two dictionaries the operations write to. Every
  operation takes the estimator and returns its result dictionary together with the
  estimator as the call leaves it.
\<close>

record estimator =
  data :: frame
  outcome :: string
  treatment :: string
  results :: pydict
  diagnostics :: pydict

definition base_controls :: "string list" where
  "base_controls = [''D_star'', ''regime_merge'', ''regime_dencun'', ''is_weekend'', ''is_month_end'']"

definition trend_term :: "bool \<Rightarrow> string list" where
  "trend_term use_time_trend = (if use_time_trend then [''time_trend''] else [])"

text \<open>
  \<open>_run_diagnostics\<close> runs the Ljung--Box test with ten lags, White's test and the
  Durbin--Watson statistic on the residuals of the fit it is given, and stores the three
  outcomes in \<open>self.diagnostics\<close>. The entries it stores:
\<close>

definition ljung_box_entry :: "pyfloat list \<times> pyfloat list \<Rightarrow> pyval" where
  "ljung_box_entry lb =
     VDict [(''statistic'', VFloats (fst lb)), (''pvalue'', VFloats (snd lb)),
            (''significant'', VBool (list_ex (\<lambda>p. flt p (Fin (5 / 100))) (snd lb)))]"

definition white_entry :: "pyfloat \<times> pyfloat \<Rightarrow> pyval" where
  "white_entry w =
     VDict [(''statistic'', VFloat (fst w)), (''pvalue'', VFloat (snd w)),
            (''significant'', VBool (flt (snd w) (Fin (5 / 100))))]"

definition run_diagnostics :: "numlib \<Rightarrow> fitres \<Rightarrow> design \<Rightarrow> pydict \<Rightarrow> error + pydict" where
  "run_diagnostics lib model_results d diag =
     (let residuals = resid model_results in
      bind_err (acorr_ljungbox lib residuals 10) (\<lambda>lb.
      bind_err (het_white lib residuals (exog d)) (\<lambda>w.
        let dw = durbin_watson lib residuals;
            diag1 = AList.update ''ljung_box'' (ljung_box_entry lb) diag;
            diag2 = AList.update ''white_test'' (white_entry w) diag1
        in Inr (AList.update ''durbin_watson'' (VFloat dw) diag2))))"

definition main_effect ::
  "fitres \<Rightarrow> pyfloat \<Rightarrow> pyfloat \<Rightarrow> pyfloat \<times> pyfloat \<Rightarrow> pyfloat \<Rightarrow> nat \<Rightarrow> nat \<Rightarrow> pydict" where
  "main_effect ols_results beta se ci pval bandwidth n =
     [(''beta'', VFloat beta), (''se'', VFloat se),
      (''ci_lower'', VFloat (fst ci)), (''ci_upper'', VFloat (snd ci)),
      (''pvalue'', VFloat pval),
      (''semi_elasticity'', VFloat (semi_elasticity beta)),
      (''semi_se'', VFloat (delta_method_se beta se)),
      (''bandwidth'', VInt (int bandwidth)), (''n_obs'', VInt (int n)),
      (''r_squared'', VFloat (rsquared ols_results)),
      (''r_squared_adj'', VFloat (rsquared_adj ols_results))]"

definition estimate_main_spec ::
  "numlib \<Rightarrow> bool \<Rightarrow> estimator \<Rightarrow> error + pydict \<times> estimator" where
  "estimate_main_spec lib use_time_trend est =
     bind_err (dmatrices (outcome est)
                 ([treatment est] @ base_controls @ trend_term use_time_trend) (data est)) (\<lambda>d.
     bind_err (ols_fit lib d) (\<lambda>ols_results.
     bind_err (hac_fit lib d (andrews_bandwidth lib (length (endog d)))) (\<lambda>hac_results.
     bind_err (getitem (params hac_results) (treatment est)) (\<lambda>beta.
     bind_err (getitem (bse hac_results) (treatment est)) (\<lambda>se.
     bind_err (getitem (conf_int hac_results) (treatment est)) (\<lambda>ci.
     bind_err (getitem (pvalues hac_results) (treatment est)) (\<lambda>pval.
       let eff = main_effect ols_results beta se ci pval
                   (andrews_bandwidth lib (length (endog d))) (length (endog d));
           results1 = AList.update ''main_effect'' (VDict eff)
                        (AList.update ''main_hac'' (VModel hac_results)
                          (AList.update ''main_ols'' (VModel ols_results) (results est)))
       in bind_err (run_diagnostics lib ols_results d (diagnostics est)) (\<lambda>diag.
            Inr (eff, est\<lparr>results := results1, diagnostics := diag\<rparr>)))))))))"

text \<open>Decimal digits of a lag, for the column name \<^verbatim>\<open>f'{treatment}_lag{lag}'\<close>.\<close>

fun str_nat :: "nat \<Rightarrow> string" where
  "str_nat n =
     (if n < 10 then [''0123456789'' ! n]
      else str_nat (n div 10) @ [''0123456789'' ! (n mod 10)])"

definition lag_name :: "string \<Rightarrow> nat \<Rightarrow> string" where
  "lag_name t lag = t @ ''_lag'' @ str_nat lag"

fun add_lags :: "string \<Rightarrow> nat list \<Rightarrow> frame \<Rightarrow> error + frame" where
  "add_lags t [] fr = Inr fr"
| "add_lags t (lag # lags) fr =
     bind_err (get_col fr t) (\<lambda>v. add_lags t lags (set_col (lag_name t lag) (shift (int lag) v) fr))"

primrec sum_lag_params ::
  "(string \<times> pyfloat) list \<Rightarrow> string \<Rightarrow> nat list \<Rightarrow> pyfloat \<Rightarrow> error + pyfloat" where
  "sum_lag_params ps t [] acc = Inr acc"
| "sum_lag_params ps t (lag # lags) acc =
     bind_err (getitem ps (lag_name t lag)) (\<lambda>b. sum_lag_params ps t lags (fadd acc b))"

primrec lag_params ::
  "(string \<times> pyfloat) list \<Rightarrow> string \<Rightarrow> nat list \<Rightarrow> pydict \<Rightarrow> error + pydict" where
  "lag_params ps t [] acc = Inr acc"
| "lag_params ps t (lag # lags) acc =
     bind_err (getitem ps (lag_name t lag)) (\<lambda>b.
       lag_params ps t lags (AList.update (str_nat lag) (VFloat b) acc))"

definition estimate_distributed_lags ::
  "numlib \<Rightarrow> nat list \<Rightarrow> estimator \<Rightarrow> error + pydict \<times> estimator" where
  "estimate_distributed_lags lib lags est =
     bind_err (add_lags (treatment est) lags (data est)) (\<lambda>data1.
     bind_err (dmatrices (outcome est)
                 ([treatment est] @ map (lag_name (treatment est)) lags @ base_controls)
                 (dropna data1)) (\<lambda>d.
     bind_err (hac_fit lib d (andrews_bandwidth lib (length (endog d)))) (\<lambda>dl_results.
     bind_err (getitem (params dl_results) (treatment est)) (\<lambda>b0.
     bind_err (sum_lag_params (params dl_results) (treatment est) lags b0) (\<lambda>long_run_effect.
     bind_err (lag_params (params dl_results) (treatment est) lags []) (\<lambda>lagd.
       let res = [(''model'', VModel dl_results), (''contemporaneous'', VFloat b0),
                  (''lags'', VDict lagd), (''long_run_effect'', VFloat long_run_effect),
                  (''long_run_semi_elasticity'', VFloat (semi_elasticity long_run_effect)),
                  (''n_obs'', VInt (int (length (endog d))))]
       in Inr (res, est\<lparr>data := data1,
                         results := AList.update ''distributed_lags'' (VDict res) (results est)\<rparr>)))))))"

text \<open>The Koyck long-run multiplier and its semi-elasticity (lines 326--332).\<close>

definition koyck_long_run :: "pyfloat \<Rightarrow> pyfloat \<Rightarrow> pyfloat \<times> pyfloat" where
  "koyck_long_run rho short_run =
     (if flt rho (Fin 1)
      then (fdiv short_run (fsub (Fin 1) rho),
            semi_elasticity (fdiv short_run (fsub (Fin 1) rho)))
      else (NaN, NaN))"

definition koyck_record :: "fitres \<Rightarrow> pyfloat \<Rightarrow> pyfloat \<Rightarrow> nat \<Rightarrow> pydict" where
  "koyck_record koyck_results rho short_run n =
     [(''model'', VModel koyck_results), (''rho'', VFloat rho),
      (''short_run_effect'', VFloat short_run),
      (''long_run_effect'', VFloat (fst (koyck_long_run rho short_run))),
      (''long_run_semi_elasticity'', VFloat (snd (koyck_long_run rho short_run))),
      (''adjustment_speed'', VFloat (fsub (Fin 1) rho)),
      (''n_obs'', VInt (int n))]"

definition koyck_rhs :: "estimator \<Rightarrow> bool \<Rightarrow> string list" where
  "koyck_rhs est use_time_trend =
     [''log_base_fee_lag1'', treatment est] @ base_controls @ trend_term use_time_trend"

definition estimate_koyck_lag ::
  "numlib \<Rightarrow> bool \<Rightarrow> estimator \<Rightarrow> error + pydict \<times> estimator" where
  "estimate_koyck_lag lib use_time_trend est =
     bind_err (get_col (data est) (outcome est)) (\<lambda>yv.
       let data1 = set_col ''log_base_fee_lag1'' (shift 1 yv) (data est) in
       bind_err (dmatrices (outcome est) (koyck_rhs est use_time_trend) (dropna data1)) (\<lambda>d.
       bind_err (hac_fit lib d (andrews_bandwidth lib (length (endog d)))) (\<lambda>koyck_results.
       bind_err (getitem (params koyck_results) ''log_base_fee_lag1'') (\<lambda>rho.
       bind_err (getitem (params koyck_results) (treatment est)) (\<lambda>short_run.
         let res = koyck_record koyck_results rho short_run (length (endog d))
         in Inr (res, est\<lparr>data := data1,
                           results := AList.update ''koyck'' (VDict res) (results est)\<rparr>))))))"


text \<open>
  The Prais--Winsten transform of \<open>estimate_fgls\<close> (lines 529--539): the first row is
  scaled by \<open>sqrt (1 - \<rho>\<^sup>2)\<close>, every later row is \<open>x\<^sub>t - \<rho> x\<^sub>t\<^sub>-\<^sub>1\<close>. Writing the
  first row of an empty array raises.
\<close>

definition quasi_diff :: "pyfloat \<Rightarrow> pyfloat \<Rightarrow> pyfloat \<Rightarrow> pyfloat" where
  "quasi_diff rho x x_prev = fsub x (fmul rho x_prev)"

definition first_scale :: "pyfloat \<Rightarrow> pyfloat" where
  "first_scale rho = fsqrt (fsub (Fin 1) (fmul rho rho))"

definition transform_vector :: "pyfloat \<Rightarrow> pyfloat list \<Rightarrow> error + pyfloat list" where
  "transform_vector rho y =
     (case y of
        [] \<Rightarrow> Inl IndexError
      | y0 # rest \<Rightarrow> Inr (fmul (first_scale rho) y0 # map2 (quasi_diff rho) rest (butlast y)))"

definition transform_matrix :: "pyfloat \<Rightarrow> pyfloat list list \<Rightarrow> error + pyfloat list list" where
  "transform_matrix rho X =
     (case X of
        [] \<Rightarrow> Inl IndexError
      | x0 # rest \<Rightarrow>
          Inr (map (fmul (first_scale rho)) x0
               # map2 (\<lambda>x x_prev. map2 (quasi_diff rho) x x_prev) rest (butlast X)))"

definition prais_winsten :: "pyfloat \<Rightarrow> design \<Rightarrow> error + design" where
  "prais_winsten rho d =
     bind_err (transform_vector rho (endog d)) (\<lambda>y_transformed.
     bind_err (transform_matrix rho (exog d)) (\<lambda>X_transformed.
       Inr (d\<lparr>endog := y_transformed, exog := X_transformed\<rparr>)))"

text \<open>Step 4 of \<open>estimate_fgls\<close>: ordinary least squares on the transformed data.\<close>

definition fgls_refit :: "numlib \<Rightarrow> pyfloat \<Rightarrow> design \<Rightarrow> error + fitres" where
  "fgls_refit lib rho d = bind_err (prais_winsten rho d) (ols_fit lib)"

fun index_of :: "string list \<Rightarrow> string \<Rightarrow> error + nat" where
  "index_of [] k = Inl ValueError"
| "index_of (x # xs) k = (if x = k then Inr 0 else bind_err (index_of xs k) (\<lambda>i. Inr (Suc i)))"

definition estimate_fgls :: "numlib \<Rightarrow> estimator \<Rightarrow> error + pydict \<times> estimator" where
  "estimate_fgls lib est =
     bind_err (dmatrices (outcome est) ([treatment est] @ base_controls) (data est)) (\<lambda>d.
     bind_err (ols_fit lib d) (\<lambda>ols_results.
       let residuals = resid ols_results;
           rho = corrcoef lib (butlast residuals) (tl residuals) in
       bind_err (fgls_refit lib rho d) (\<lambda>fgls_results.
       bind_err (index_of (exog_names d) (treatment est)) (\<lambda>treat_idx.
       bind_err (nth_err (params fgls_results) treat_idx) (\<lambda>beta.
       bind_err (nth_err (bse fgls_results) treat_idx) (\<lambda>se.
         let dw = durbin_watson lib (resid fgls_results);
             res = [(''model'', VModel fgls_results), (''beta'', VFloat (snd beta)),
                    (''se'', VFloat (snd se)),
                    (''semi_elasticity'', VFloat (semi_elasticity (snd beta))),
                    (''rho'', VFloat rho), (''durbin_watson'', VFloat dw),
                    (''n_obs'', VInt (int (length (endog d))))]
         in Inr (res, est\<lparr>results := AList.update ''fgls'' (VDict res) (results est)\<rparr>)))))))"

text \<open>
  \<open>_create_translation_box\<close>: the note attached to the first-difference fit. Apart from the
  coefficient and its standard error it is constant text (Greek letters spelled out).
\<close>

definition create_translation_box :: "pyfloat \<Rightarrow> pyfloat \<Rightarrow> pydict" where
  "create_translation_box beta_diff se_diff =
     [(''specification'', VStr ''First Differences''),
      (''interpretation'', VStr ''Change-on-change elasticity''),
      (''coefficient'', VFloat beta_diff),
      (''se'', VFloat se_diff),
      (''mapping_to_levels'',
         VDict [(''method'', VStr ''Integration under stationarity''),
                (''assumption'', VStr ''No permanent level shift''),
                (''formula'', VStr ''beta_diff approximates short-run beta_levels''),
                (''long_run_relation'', VStr ''Requires distributed lags for full mapping'')]),
      (''advantages'',
         VList [VStr ''Eliminates time-invariant unobservables'',
                VStr ''Addresses non-stationarity'',
                VStr ''Simpler identification'']),
      (''disadvantages'',
         VList [VStr ''May amplify measurement error'',
                VStr ''Loses long-run information'',
                VStr ''Different identifying variation'',
                VStr ''Cannot identify level effects'']),
      (''econometric_notes'',
         VStr (''First differences and levels identify different parameters. ''
               @ ''FD identifies short-run effects from period-to-period changes. ''
               @ ''Levels with proper controls identifies total effects including ''
               @ ''long-run adjustments. Translation requires assumptions about ''
               @ ''the dynamic adjustment process.''))]"

definition add_differences :: "estimator \<Rightarrow> error + frame" where
  "add_differences est =
     bind_err (get_col (data est) (outcome est)) (\<lambda>yv.
       let data1 = set_col ''d_log_base_fee'' (diff yv) (data est) in
       bind_err (get_col data1 (treatment est)) (\<lambda>av.
         let data2 = set_col ''d_A_t'' (diff av) data1 in
         bind_err (get_col data2 ''D_star'') (\<lambda>dv.
           Inr (set_col ''d_D_star'' (diff dv) data2))))"

definition estimate_differences_robustness ::
  "numlib \<Rightarrow> estimator \<Rightarrow> error + pydict \<times> estimator" where
  "estimate_differences_robustness lib est =
     bind_err (add_differences est) (\<lambda>data1.
     bind_err (dmatrices ''d_log_base_fee'' [''d_A_t'', ''d_D_star''] (dropna data1)) (\<lambda>d.
     bind_err (hac_fit lib d (andrews_bandwidth lib (length (endog d)))) (\<lambda>diff_results.
     bind_err (getitem (params diff_results) ''d_A_t'') (\<lambda>beta_diff.
     bind_err (getitem (bse diff_results) ''d_A_t'') (\<lambda>se_diff.
       let res = [(''model'', VModel diff_results), (''beta'', VFloat beta_diff),
                  (''se'', VFloat se_diff),
                  (''translation_box'', VDict (create_translation_box beta_diff se_diff)),
                  (''n_obs'', VInt (int (length (endog d))))]
       in Inr (res, est\<lparr>data := data1,
                         results := AList.update ''differences'' (VDict res) (results est)\<rparr>))))))"


section \<open>Local projections (\<open>12_irf_local_projections.py\<close>)\<close>

text \<open>
  \<open>compute_cumulative\<close>. The summary is the table of per-horizon fits (columns \<open>h\<close>, \<open>beta\<close>,
  \<open>se\<close>, the HAC bounds and, when the bootstrap ran, its bounds). For each \<open>H\<close> of the
  horizon set the rows with \<open>h \<le> H\<close> are selected and aggregated.
\<close>

definition rows_upto :: "frame \<Rightarrow> int \<Rightarrow> error + frame" where
  "rows_upto summary H =
     bind_err (get_col summary ''h'') (\<lambda>hs.
       Inr (select_rows (filter (\<lambda>i. fle (hs ! i) (Fin (real_of_int H))) [0..<nrows summary])
              summary))"

definition se_col :: "frame \<Rightarrow> string" where
  "se_col sub = (if has_col sub ''se_hac'' then ''se_hac'' else ''se'')"

definition se_cum :: "frame \<Rightarrow> error + pyfloat" where
  "se_cum sub =
     bind_err (get_col sub (se_col sub)) (\<lambda>ses.
       Inr (fsqrt (nansum (map (\<lambda>s. fmul s s) ses))))"

definition conservative_bounds :: "frame \<Rightarrow> error + pyfloat \<times> pyfloat" where
  "conservative_bounds sub =
     (if has_col sub ''ci_low_mbb'' \<and> has_col sub ''ci_high_mbb''
         \<and> \<not> list_ex isnan (get_or (columns sub) ''ci_low_mbb'' [])
      then bind_err (get_col sub ''ci_low_mbb'') (\<lambda>lo.
           bind_err (get_col sub ''ci_high_mbb'') (\<lambda>hi. Inr (nansum lo, nansum hi)))
      else bind_err (get_col sub ''ci_low_hac'') (\<lambda>lo.
           bind_err (get_col sub ''ci_high_hac'') (\<lambda>hi. Inr (nansum lo, nansum hi))))"

definition cumulative_row :: "frame \<Rightarrow> string \<Rightarrow> int \<Rightarrow> error + pydict" where
  "cumulative_row summary outc H =
     bind_err (rows_upto summary H) (\<lambda>sub.
     bind_err (get_col sub ''beta'') (\<lambda>betas.
       let beta_cum = nansum betas in
       if outc = ''log_base_fee'' then
         bind_err (se_cum sub) (\<lambda>se.
           let beta_low = fsub beta_cum (fmul (Fin (196 / 100)) se);
               beta_high = fadd beta_cum (fmul (Fin (196 / 100)) se) in
           bind_err (conservative_bounds sub) (\<lambda>(beta_cum_low, beta_cum_high).
             Inr [(''H'', VInt H), (''beta_cum'', VFloat beta_cum),
                  (''semi_elasticity_10pp'', VFloat (semi_elasticity beta_cum)),
                  (''semi_ci_low_delta'', VFloat (semi_elasticity beta_low)),
                  (''semi_ci_high_delta'', VFloat (semi_elasticity beta_high)),
                  (''semi_ci_low_cons'', VFloat (semi_elasticity beta_cum_low)),
                  (''semi_ci_high_cons'', VFloat (semi_elasticity beta_cum_high))]))
       else
         bind_err (se_cum sub) (\<lambda>se.
           let level_change = fmul (Fin (1 / 10)) beta_cum;
               level_se = fmul (Fin (1 / 10)) se in
           Inr [(''H'', VInt H), (''beta_cum'', VFloat beta_cum),
                (''level_change_10pp'', VFloat level_change),
                (''level_ci_low_delta'',
                   VFloat (fsub level_change (fmul (Fin (196 / 100)) level_se))),
                (''level_ci_high_delta'',
                   VFloat (fadd level_change (fmul (Fin (196 / 100)) level_se)))])))"

primrec compute_cumulative :: "frame \<Rightarrow> int list \<Rightarrow> string \<Rightarrow> error + pydict list" where
  "compute_cumulative summary [] outc = Inr []"
| "compute_cumulative summary (H # horizons) outc =
     bind_err (cumulative_row summary outc H) (\<lambda>row.
     bind_err (compute_cumulative summary horizons outc) (\<lambda>rows. Inr (row # rows)))"

text \<open>
  The moving-block bootstrap. NumPy's generator is a parameter: \<open>seeded\<close> is the state of
  the generator built from a non-negative seed and \<open>draw\<close> yields an integer together with
  the generator's next state. \<open>np.random.default_rng\<close> raises on a negative seed, and
  \<open>Generator.integers\<close> raises when the interval is empty.
\<close>

record 'g rng =
  seeded :: "int \<Rightarrow> 'g"
  draw :: "'g \<Rightarrow> int \<Rightarrow> int \<Rightarrow> int \<times> 'g"

definition default_rng :: "'g rng \<Rightarrow> int \<Rightarrow> error + 'g" where
  "default_rng R seed = (if seed < 0 then Inl ValueError else Inr (seeded R seed))"

definition rng_integers :: "'g rng \<Rightarrow> 'g \<Rightarrow> int \<Rightarrow> int \<Rightarrow> error + int \<times> 'g" where
  "rng_integers R g low high = (if high \<le> low then Inl ValueError else Inr (draw R g low high))"

text \<open>
  The inner \<open>while\<close> loop draws block starts until the index list is long enough. It does
  not end when the block length is not positive, so its result is optional.
\<close>

partial_function (option) draw_indices ::
  "'g rng \<Rightarrow> nat \<Rightarrow> int \<Rightarrow> int list \<Rightarrow> 'g \<Rightarrow> (error + int list \<times> 'g) option" where
  "draw_indices R n_eff block_len indices g =
     (if length indices < n_eff then
        (case rng_integers R g 0 (int n_eff - block_len + 1) of
           Inl e \<Rightarrow> Some (Inl e)
         | Inr sg \<Rightarrow>
             draw_indices R n_eff block_len
               (indices @ [fst sg..fst sg + block_len - 1]) (snd sg))
      else Some (Inr (indices, g)))"

text \<open>\<open>DataFrame.iloc\<close> with a list of positions; negative positions count from the end.\<close>

definition iloc_pos :: "nat \<Rightarrow> int \<Rightarrow> error + nat" where
  "iloc_pos n i =
     (if 0 \<le> i \<and> i < int n then Inr (nat i)
      else if - int n \<le> i \<and> i < 0 then Inr (nat (int n + i))
      else Inl IndexError)"

primrec iloc_positions :: "nat \<Rightarrow> int list \<Rightarrow> error + nat list" where
  "iloc_positions n [] = Inr []"
| "iloc_positions n (i # is) =
     bind_err (iloc_pos n i) (\<lambda>p. bind_err (iloc_positions n is) (\<lambda>ps. Inr (p # ps)))"

definition iloc_rows :: "int list \<Rightarrow> frame \<Rightarrow> error + frame" where
  "iloc_rows indices fr =
     bind_err (iloc_positions (nrows fr) indices) (\<lambda>ps. Inr (select_rows ps fr))"

definition lp_controls :: "string list" where
  "lp_controls = [''d_A_t'', ''d_D_star'', ''regime_merge'', ''regime_dencun'',
                  ''is_weekend'', ''is_month_end'']"

definition default_block_len :: "nat \<Rightarrow> int" where
  "default_block_len n = max 5 (round (root 3 (real n)))"

definition mbb_base_frame :: "frame \<Rightarrow> int \<Rightarrow> error + frame" where
  "mbb_base_frame df h =
     bind_err (get_col df ''log_base_fee'') (\<lambda>lv.
     bind_err (get_cols df lp_controls) (\<lambda>vs.
       Inr (dropna \<lparr>nrows = nrows df,
                    columns = (''y_h'', map2 fsub (shift (- h) lv) (shift (- h + 1) lv))
                              # zip lp_controls vs\<rparr>)))"

text \<open>One replication's refit: any exception of the fit is caught and recorded as NaN.\<close>

definition sample_design :: "frame \<Rightarrow> design" where
  "sample_design sample =
     \<lparr>endog = get_or (columns sample) ''y_h'' [],
      exog_names = lp_controls,
      exog = map (\<lambda>i. map (\<lambda>c. get_or (columns sample) c [] ! i) lp_controls)
               [0..<nrows sample]\<rparr>"

definition mbb_beta :: "numlib \<Rightarrow> frame \<Rightarrow> pyfloat" where
  "mbb_beta lib sample =
     (case ols_fit lib (add_constant lib (sample_design sample)) of
        Inl _ \<Rightarrow> NaN
      | Inr res_b \<Rightarrow> get_or (params res_b) ''d_A_t'' NaN)"

primrec boot_loop ::
  "'g rng \<Rightarrow> numlib \<Rightarrow> frame \<Rightarrow> int \<Rightarrow> nat \<Rightarrow> 'g \<Rightarrow> (error + pyfloat list) option" where
  "boot_loop R lib base block_len 0 g = Some (Inr [])"
| "boot_loop R lib base block_len (Suc b) g =
     (case draw_indices R (nrows base) block_len [] g of
        None \<Rightarrow> None
      | Some (Inl e) \<Rightarrow> Some (Inl e)
      | Some (Inr ig) \<Rightarrow>
          (case iloc_rows (take (nrows base) (fst ig)) base of
             Inl e \<Rightarrow> Some (Inl e)
           | Inr sample \<Rightarrow>
               (case boot_loop R lib base block_len b (snd ig) of
                  None \<Rightarrow> None
                | Some (Inl e) \<Rightarrow> Some (Inl e)
                | Some (Inr betas) \<Rightarrow> Some (Inr (mbb_beta lib sample # betas)))))"

text \<open>
  \<open>moving_block_bootstrap_irf\<close>. The generator is built first, from \<open>random_state\<close>; the
  function reads no other source of randomness. The result is \<open>None\<close> when the call does
  not return.
\<close>

definition moving_block_bootstrap_irf ::
  "'g rng \<Rightarrow> numlib \<Rightarrow> frame \<Rightarrow> int \<Rightarrow> int \<Rightarrow> int option \<Rightarrow> int
     \<Rightarrow> (error + pyfloat \<times> pyfloat) option" where
  "moving_block_bootstrap_irf R lib df h B block_len random_state =
     (case default_rng R random_state of
        Inl e \<Rightarrow> Some (Inl e)
      | Inr g0 \<Rightarrow>
          (let bl = (case block_len of None \<Rightarrow> default_block_len (nrows df) | Some b \<Rightarrow> b) in
           case mbb_base_frame df h of
             Inl e \<Rightarrow> Some (Inl e)
           | Inr base \<Rightarrow>
               if B < 0 then Some (Inl ValueError)
               else
                 (case boot_loop R lib base bl (nat B) g0 of
                    None \<Rightarrow> None
                  | Some (Inl e) \<Rightarrow> Some (Inl e)
                  | Some (Inr betas) \<Rightarrow>
                      (let kept = filter (\<lambda>b. \<not> isnan b) betas in
                       if int (length kept) < max 30 (B div 2) then Some (Inr (NaN, NaN))
                       else Some (Inr (percentile lib kept (5 / 2),
                                       percentile lib kept (195 / 2)))))))"

definition block_len_ok :: "int option \<Rightarrow> bool" where
  "block_len_ok block_len = (case block_len of None \<Rightarrow> True | Some b \<Rightarrow> 1 \<le> b)"


section \<open>Test doubles and sample panels\<close>

text \<open>
  A test double for the numerical libraries, used to run the model on concrete panels:
  every fit reports the coefficient \<open>c\<close> for each regressor and the outcome as residuals,
  the ADF test reports a p-value of 0.01, the Ljung--Box test raises unless there are more
  residuals than lags (as statsmodels does), a percentile is the first value of the list
  (exact when all values are equal), \<open>add_constant\<close> prepends a column of ones, and the
  power of the bandwidth formula is the real power.
\<close>

definition const_fit :: "pyfloat \<Rightarrow> design \<Rightarrow> fitres" where
  "const_fit c d =
     \<lparr>params = map (\<lambda>x. (x, c)) (exog_names d),
      bse = map (\<lambda>x. (x, Fin 1)) (exog_names d),
      pvalues = map (\<lambda>x. (x, Fin (1 / 2))) (exog_names d),
      conf_int = map (\<lambda>x. (x, (fsub c (Fin 2), fadd c (Fin 2)))) (exog_names d),
      resid = endog d,
      rsquared = Fin 0,
      rsquared_adj = Fin 0\<rparr>"

definition test_lib :: "pyfloat \<Rightarrow> numlib" where
  "test_lib c =
     \<lparr>ols_fit = (\<lambda>d. Inr (const_fit c d)),
      hac_fit = (\<lambda>d bw. Inr (const_fit c d)),
      adfuller = (\<lambda>r. Inr (Fin (- 4), Fin (1 / 100))),
      coint_johansen = (\<lambda>X det_order k_ar_diff. Inl LibraryError),
      acorr_ljungbox =
        (\<lambda>r k. if length r \<le> k then Inl LibraryError
                else Inr (replicate k (Fin 0), replicate k (Fin 1))),
      het_white = (\<lambda>r X. Inr (Fin 0, Fin 1)),
      durbin_watson = (\<lambda>r. Fin 2),
      corrcoef = (\<lambda>x y. Fin 0),
      percentile = (\<lambda>xs q. case xs of [] \<Rightarrow> NaN | x # _ \<Rightarrow> x),
      add_constant =
        (\<lambda>d. d\<lparr>exog_names := ''const'' # exog_names d,
                 exog := map (\<lambda>r. Fin 1 # r) (exog d)\<rparr>),
      bandwidth_power = (\<lambda>n. (real n / 100) powr (2 / 9))\<rparr>"

definition ecm_lib :: numlib where
  "ecm_lib = test_lib (Fin (- 1 / 2))"

definition levels_lib :: numlib where
  "levels_lib = test_lib (Fin (1 / 2))"

definition unit_root_lib :: numlib where
  "unit_root_lib = test_lib (Fin 1)"

text \<open>A complete daily panel of ten rows with the columns the levels estimator reads.\<close>

definition panel10 :: frame where
  "panel10 =
     \<lparr>nrows = 10,
      columns =
        [(''log_base_fee'',
           [Fin 3, Fin 1, Fin 4, Fin 1, Fin 5, Fin 9, Fin 2, Fin 6, Fin 5, Fin 3]),
         (''A_t_clean'',
           [Fin 0, Fin 0, Fin (1 / 10), Fin (1 / 10), Fin (2 / 10),
            Fin (2 / 10), Fin (3 / 10), Fin (3 / 10), Fin (4 / 10), Fin (4 / 10)]),
         (''D_star'',
           [Fin 1, Fin 0, Fin (- 1), Fin 2, Fin 0, Fin 1, Fin (- 2), Fin 0, Fin 1, Fin 0]),
         (''regime_merge'',
           [Fin 0, Fin 0, Fin 0, Fin 0, Fin 1, Fin 1, Fin 1, Fin 1, Fin 1, Fin 1]),
         (''regime_dencun'',
           [Fin 0, Fin 0, Fin 0, Fin 0, Fin 0, Fin 0, Fin 0, Fin 0, Fin 1, Fin 1]),
         (''is_weekend'',
           [Fin 0, Fin 0, Fin 1, Fin 1, Fin 0, Fin 0, Fin 0, Fin 0, Fin 0, Fin 1]),
         (''is_month_end'',
           [Fin 0, Fin 0, Fin 0, Fin 0, Fin 0, Fin 1, Fin 0, Fin 0, Fin 0, Fin 0]),
         (''time_trend'',
           [Fin 0, Fin 1, Fin 2, Fin 3, Fin 4, Fin 5, Fin 6, Fin 7, Fin 8, Fin 9])]\<rparr>"

definition estimator10 :: estimator where
  "estimator10 =
     \<lparr>data = panel10, outcome = ''log_base_fee'', treatment = ''A_t_clean'',
      results = [], diagnostics = []\<rparr>"

text \<open>The same panel continued for two more days: twelve rows.\<close>

definition panel12 :: frame where
  "panel12 =
     \<lparr>nrows = 12,
      columns =
        [(''log_base_fee'',
           [Fin 3, Fin 1, Fin 4, Fin 1, Fin 5, Fin 9, Fin 2, Fin 6, Fin 5, Fin 3,
            Fin 5, Fin 8]),
         (''A_t_clean'',
           [Fin 0, Fin 0, Fin (1 / 10), Fin (1 / 10), Fin (2 / 10),
            Fin (2 / 10), Fin (3 / 10), Fin (3 / 10), Fin (4 / 10), Fin (4 / 10),
            Fin (5 / 10), Fin (5 / 10)]),
         (''D_star'',
           [Fin 1, Fin 0, Fin (- 1), Fin 2, Fin 0, Fin 1, Fin (- 2), Fin 0, Fin 1, Fin 0,
            Fin (- 1), Fin 1]),
         (''regime_merge'',
           [Fin 0, Fin 0, Fin 0, Fin 0, Fin 1, Fin 1, Fin 1, Fin 1, Fin 1, Fin 1,
            Fin 1, Fin 1]),
         (''regime_dencun'',
           [Fin 0, Fin 0, Fin 0, Fin 0, Fin 0, Fin 0, Fin 0, Fin 0, Fin 1, Fin 1,
            Fin 1, Fin 1]),
         (''is_weekend'',
           [Fin 0, Fin 0, Fin 1, Fin 1, Fin 0, Fin 0, Fin 0, Fin 0, Fin 0, Fin 1,
            Fin 1, Fin 0]),
         (''is_month_end'',
           [Fin 0, Fin 0, Fin 0, Fin 0, Fin 0, Fin 1, Fin 0, Fin 0, Fin 0, Fin 0,
            Fin 0, Fin 0]),
         (''time_trend'',
           [Fin 0, Fin 1, Fin 2, Fin 3, Fin 4, Fin 5, Fin 6, Fin 7, Fin 8, Fin 9,
            Fin 10, Fin 11])]\<rparr>"

definition estimator12 :: estimator where
  "estimator12 =
     \<lparr>data = panel12, outcome = ''log_base_fee'', treatment = ''A_t_clean'',
      results = [], diagnostics = []\<rparr>"

text \<open>A complete five-row panel for the cointegration script, and the residuals of a long-run regression that used all of its rows.\<close>

definition panel5 :: frame where
  "panel5 =
     \<lparr>nrows = 5,
      columns =
        [(''log_base_fee'',
           [Fin 3, Fin 1, Fin 4, Fin 1, Fin 5]),
         (''A_t_clean'',
           [Fin 0, Fin (1 / 10), Fin (1 / 10), Fin (2 / 10), Fin (3 / 10)]),
         (''D_star'',
           [Fin 1, Fin 0, Fin (- 1), Fin 2, Fin 0]),
         (''is_weekend'',
           [Fin 0, Fin 0, Fin 1, Fin 1, Fin 0]),
         (''is_month_end'',
           [Fin 0, Fin 0, Fin 0, Fin 0, Fin 1])]\<rparr>"

definition resid5 :: "(nat \<times> pyfloat) list" where
  "resid5 = [(0, Fin 1), (1, Fin (- 1)), (2, Fin 1), (3, Fin (- 1)), (4, Fin 0)]"



text \<open>
  A design is well-formed when it has at least one row, every entry is a finite number,
  and every row of the regressor matrix has one entry per regressor.
\<close>

definition finite_design :: "design \<Rightarrow> bool" where
  "finite_design d \<longleftrightarrow>
     endog d \<noteq> [] \<and> exog d \<noteq> [] \<and> list_all isfinite (endog d)
     \<and> list_all (list_all isfinite) (exog d)
     \<and> list_all (\<lambda>r. length r = length (exog_names d)) (exog d)"

definition design3 :: design where
  "design3 =
     \<lparr>endog = [Fin 1, Fin 2, Fin 4],
      exog_names = [''Intercept'', ''A_t_clean''],
      exog = [[Fin 1, Fin 0], [Fin 1, Fin (1 / 2)], [Fin 1, Fin 1]]\<rparr>"

text \<open>
  The point estimates of the summary rows whose horizon is at most \<open>H\<close>, read off the two
  columns side by side.
\<close>

definition betas_upto :: "pyfloat list \<Rightarrow> pyfloat list \<Rightarrow> int \<Rightarrow> pyfloat list" where
  "betas_upto hs betas H =
     map snd (filter (\<lambda>hb. fle (fst hb) (Fin (real_of_int H))) (zip hs betas))"

text \<open>A summary of per-horizon fits for \<open>h = 0, ..., 7\<close> with point estimates \<open>1, ..., 8\<close>.\<close>

definition summary8 :: frame where
  "summary8 =
     \<lparr>nrows = 8,
      columns =
        [(''h'', [Fin 0, Fin 1, Fin 2, Fin 3, Fin 4, Fin 5, Fin 6, Fin 7]),
         (''beta'', [Fin 1, Fin 2, Fin 3, Fin 4, Fin 5, Fin 6, Fin 7, Fin 8]),
         (''se'', [Fin 0, Fin 0, Fin 0, Fin 0, Fin 0, Fin 0, Fin 0, Fin 0]),
         (''ci_low_hac'', [Fin 0, Fin 1, Fin 2, Fin 3, Fin 4, Fin 5, Fin 6, Fin 7]),
         (''ci_high_hac'', [Fin 2, Fin 3, Fin 4, Fin 5, Fin 6, Fin 7, Fin 8, Fin 9])]\<rparr>"

text \<open>
  A test double for the generator: its state is a counter, and a draw from \<open>[low, high)\<close> is
  the counter reduced into the interval.
\<close>

definition counter_rng :: "nat rng" where
  "counter_rng =
     \<lparr>seeded = (\<lambda>seed. nat seed),
      draw = (\<lambda>g low high. (low + int g mod (high - low), Suc g))\<rparr>"

text \<open>A prepared six-row panel for the local projections; first differences start with NaN.\<close>

definition lp_panel6 :: frame where
  "lp_panel6 =
     \<lparr>nrows = 6,
      columns =
        [(''log_base_fee'', [Fin 3, Fin 1, Fin 4, Fin 1, Fin 5, Fin 9]),
         (''d_A_t'', [NaN, Fin 0, Fin (1 / 10), Fin 0, Fin (1 / 10), Fin 0]),
         (''d_D_star'', [NaN, Fin (- 1), Fin (- 1), Fin 3, Fin (- 2), Fin 1]),
         (''regime_merge'', [Fin 0, Fin 0, Fin 0, Fin 1, Fin 1, Fin 1]),
         (''regime_dencun'', [Fin 0, Fin 0, Fin 0, Fin 0, Fin 0, Fin 1]),
         (''is_weekend'', [Fin 0, Fin 1, Fin 1, Fin 0, Fin 0, Fin 0]),
         (''is_month_end'', [Fin 0, Fin 0, Fin 0, Fin 0, Fin 1, Fin 0])]\<rparr>"

section \<open>Properties\<close>

subsection \<open>Evaluation rules\<close>

lemma bind_err_Inl [simp]: "bind_err (Inl e) f = Inl e"
  by (simp add: bind_err_def)

lemma bind_err_Inr [simp]: "bind_err (Inr x) f = f x"
  by (simp add: bind_err_def)

text \<open>Running the model on a concrete input: the continuation is entered only with a value.\<close>

lemma bind_err_weak_cong: "m = m' \<Longrightarrow> bind_err m f = bind_err m' f"
  by simp

text \<open>A computation whose continuation returned a value has itself returned one.\<close>

lemma not_isl_bind:
  assumes "bind_err m f = Inr v"
  shows "m = Inr (projr m)"
  using assms by (cases m) simp_all

lemma returned_value:
  assumes "bind_err m (\<lambda>x. Inr (f x)) = Inr v"
  shows "m = Inr (projr m) \<and> f (projr m) = v"
  using assms by (cases m) simp_all


lemma returned_pair:
  assumes "bind_err m (\<lambda>(r, e). f r e) = Inr v"
  shows "m = Inr (fst (projr m), snd (projr m)) \<and> f (fst (projr m)) (snd (projr m)) = Inr v"
  using assms by (cases m) auto

lemmas frame_eval =
  has_col_def get_col_def set_col_def shift_def diff_def select_rows_def row_complete_def
  complete_rows_def dropna_def dropna_subset_def getitem_def get_or_def fsub_def upt_conv_Cons

lemmas lib_eval = levels_lib_def unit_root_lib_def test_lib_def const_fit_def

lemmas levels_eval =
  estimator10_def panel10_def estimator12_def panel12_def base_controls_def trend_term_def
  koyck_rhs_def dmatrices_def lag_name_def

subsection \<open>Rounding to \<open>float64\<close>\<close>

text \<open>
  Rounding to the nearest integer leaves an integer unchanged and takes a value less than
  one half above an integer down to it.
\<close>

lemma round_half_even_int: "round_half_even (real_of_int k) = k"
  by (simp add: round_half_even_def)

lemma round_half_even_near:
  assumes "real_of_int k \<le> x" and "x < real_of_int k + 1 / 2"
  shows "round_half_even x = k"
proof -
  from assms have "\<lfloor>x\<rfloor> = k" by linarith
  with assms show ?thesis by (simp add: round_half_even_def)
qed

lemma round_half_even_bounds: "\<lfloor>x\<rfloor> \<le> round_half_even x \<and> round_half_even x \<le> \<lfloor>x\<rfloor> + 1"
  by (simp add: round_half_even_def Let_def)

lemma powr_neg52: "(2::real) powr (- 52) = 1 / 2 ^ 52"
  by (simp add: powr_minus_divide)

lemma powr_neg53: "(2::real) powr (- 53) = 1 / 2 ^ 53"
  by (simp add: powr_minus_divide)

lemma round53_binade:
  assumes "1 \<le> x" and "x < 2"
  shows "round53 x = real_of_int (round_half_even (x * 2 ^ 52)) / 2 ^ 52"
proof -
  from assms have "0 \<le> log 2 x" "log 2 x < 1" by (simp_all add: log_less_iff)
  then have e: "\<lfloor>log 2 \<bar>x\<bar>\<rfloor> = 0" using assms by (simp add: floor_eq_iff)
  from assms have "x \<noteq> 0" by simp
  then have "round53 x = real_of_int (round_half_even (x * 2 powr 52)) * 2 powr (- 52)"
    unfolding round53_def e by simp
  then show ?thesis unfolding powr_neg52 by simp
qed

lemma round53_one: "round53 1 = 1"
proof -
  have "round53 1 = real_of_int (round_half_even (real_of_int (2 ^ 52))) / 2 ^ 52"
    using round53_binade [of 1] by simp
  then show ?thesis unfolding round_half_even_int by simp
qed

text \<open>
  The sum \<open>1 + r\<close> is rounded to \<open>1\<close> for every \<open>r\<close> closer to zero than half the spacing of
  the \<open>float64\<close> values next to \<open>1\<close>: \<open>2 ^ - 53\<close> above and \<open>2 ^ - 54\<close> below.
\<close>

lemma round53_below_half_ulp:
  assumes "0 \<le> r" and "r < 1 / 2 ^ 53"
  shows "round53 (1 + r) = 1"
proof -
  from assms have "r * 2 ^ 52 < 1 / 2"
    by (simp add: field_simps)
  with assms have "round_half_even ((1 + r) * 2 ^ 52) = 2 ^ 52"
    by (intro round_half_even_near) (simp_all add: algebra_simps)
  moreover from assms have "1 \<le> 1 + r" "1 + r < 2"
    by simp_all
  ultimately show ?thesis using round53_binade [of "1 + r"] by simp
qed

lemma round53_above_half_ulp:
  assumes "- (1 / 2 ^ 54) < r" and "r \<le> 0"
  shows "round53 (1 + r) = 1"
proof (cases "r = 0")
  case True
  then show ?thesis by (simp add: round53_one)
next
  case False
  let ?x = "1 + r"
  from assms False have x: "1 / 2 \<le> ?x" "?x < 1" by simp_all
  then have "- 1 \<le> log 2 ?x" "log 2 ?x < 0"
    by (simp_all add: le_log_iff powr_minus_divide)
  then have e: "\<lfloor>log 2 \<bar>?x\<bar>\<rfloor> = - 1" using x by (simp add: floor_eq_iff)
  from x have "?x \<noteq> 0" by simp
  then have eq: "round53 ?x = real_of_int (round_half_even (?x * 2 powr 53)) * 2 powr (- 53)"
    unfolding round53_def e by simp
  from assms False have a: "- (1 / 2) < r * 2 ^ 53" "r * 2 ^ 53 < 0"
    by (simp_all add: field_simps)
  then have "\<lfloor>r * 2 ^ 53\<rfloor> = - 1" by linarith
  moreover have "(1 + r) * 2 ^ 53 = r * 2 ^ 53 + real_of_int (2 ^ 53)"
    by (simp add: algebra_simps)
  ultimately have fl: "\<lfloor>?x * 2 ^ 53\<rfloor> = 2 ^ 53 - 1"
    by (simp only: floor_add_int) simp
  have "1 / 2 < ?x * 2 ^ 53 - real_of_int (2 ^ 53 - 1)"
    using a by (simp add: algebra_simps)
  then have "round_half_even (?x * 2 ^ 53) = 2 ^ 53"
    unfolding round_half_even_def fl Let_def by simp
  with eq show ?thesis unfolding powr_neg53 by simp
qed

lemma round53_half: "round53 (1 / 2) = 1 / 2"
proof -
  have "log 2 (1 / 2 :: real) = - 1"
    by (simp add: log_divide)
  then have e: "\<lfloor>log 2 \<bar>1 / 2 :: real\<bar>\<rfloor> = - 1"
    by (simp add: floor_eq_iff)
  have "round53 (1 / 2) = real_of_int (round_half_even (1 / 2 * 2 powr 53)) * 2 powr (- 53)"
    unfolding round53_def e by simp
  also have "(1 / 2 * 2 powr 53 :: real) = real_of_int (2 ^ 52)" by simp
  also have "real_of_int (round_half_even (real_of_int (2 ^ 52))) * 2 powr (- 53) = 1 / 2"
    unfolding round_half_even_int powr_neg53 by simp
  finally show ?thesis .
qed

text \<open>Rounding keeps the sign: the scaled magnitude is at least \<open>2 ^ 52\<close>.\<close>

lemma scaled_magnitude:
  assumes "x \<noteq> 0"
  shows "1 \<le> \<bar>x\<bar> * 2 powr (52 - real_of_int \<lfloor>log 2 \<bar>x\<bar>\<rfloor>)"
proof -
  let ?e = "real_of_int \<lfloor>log 2 \<bar>x\<bar>\<rfloor>"
  from assms have "2 powr ?e \<le> \<bar>x\<bar>"
    by (subst le_log_iff [symmetric]) simp_all
  then have "1 \<le> \<bar>x\<bar> / 2 powr ?e" by simp
  moreover have "(1::real) \<le> 2 powr 52" by simp
  ultimately have "1 * 1 \<le> 2 powr 52 * (\<bar>x\<bar> / 2 powr ?e)"
    by (intro mult_mono) simp_all
  then show ?thesis by (simp add: powr_diff)
qed

lemma round53_pos_iff: "0 < round53 x \<longleftrightarrow> 0 < x"
proof (cases "x = 0")
  case True
  then show ?thesis by (simp add: round53_def)
next
  case False
  let ?s = "2 powr (52 - real_of_int \<lfloor>log 2 \<bar>x\<bar>\<rfloor>)"
  let ?t = "2 powr (real_of_int \<lfloor>log 2 \<bar>x\<bar>\<rfloor> - 52)"
  have t: "0 < ?t" by simp
  have eq: "round53 x = real_of_int (round_half_even (x * ?s)) * ?t"
    using False by (simp add: round53_def)
  from scaled_magnitude [OF False] have m: "1 \<le> \<bar>x\<bar> * ?s" .
  show ?thesis
  proof (cases "0 < x")
    case True
    with m have "1 \<le> x * ?s" by simp
    then have "1 \<le> \<lfloor>x * ?s\<rfloor>" by linarith
    with round_half_even_bounds [of "x * ?s"] have "0 < round_half_even (x * ?s)" by linarith
    with t True show ?thesis unfolding eq by simp
  next
    case neg: False
    with False m have "x * ?s \<le> - 1" by simp
    then have "\<lfloor>x * ?s\<rfloor> \<le> - 1" by linarith
    with round_half_even_bounds [of "x * ?s"] have "round_half_even (x * ?s) \<le> 0" by linarith
    then have "real_of_int (round_half_even (x * ?s)) * ?t \<le> 0"
      using t by (simp add: mult_le_0_iff)
    with neg show ?thesis unfolding eq by simp
  qed
qed

subsection \<open>The automatic bandwidth\<close>

lemma ecm_bandwidth_range: "1 \<le> ecm_bandwidth lib n \<and> ecm_bandwidth lib n \<le> 7"
  by (simp add: ecm_bandwidth_def)

subsection \<open>The error-correction stage\<close>

lemma estimate_ecm_short:
  assumes "ecm_sample df res = Inr use" and "nrows use < 30"
  shows "estimate_ecm lib df res ev = Inr (ecm_insufficient (nrows use))"
  using assms by (simp add: estimate_ecm_def)


lemma ecm_fitted_items:
  "getitem (ecm_fitted fit n bw) ''phi'' = Inr (VFloat (get_or (params fit) ''ECT_lag1'' NaN))"
  "getitem (ecm_fitted fit n bw) ''phi_se'' = Inr (VFloat (get_or (bse fit) ''ECT_lag1'' NaN))"
  "getitem (ecm_fitted fit n bw) ''psi'' = Inr (VFloat (get_or (params fit) ''d_A_t_clean'' NaN))"
  "getitem (ecm_fitted fit n bw) ''psi_se''
     = Inr (VFloat (get_or (bse fit) ''d_A_t_clean'' NaN))"
  "getitem (ecm_fitted fit n bw) ''n'' = Inr (VInt (int n))"
  "getitem (ecm_fitted fit n bw) ''bw'' = Inr (VInt (int bw))"
  "getitem (ecm_fitted fit n bw) ''half_life_days''
     = Inr (VFloat (half_life_days (get_or (params fit) ''ECT_lag1'' NaN)))"
  by (simp_all add: ecm_fitted_def getitem_def Let_def)



lemma ecm_sample_panel5:
  "bind_err (ecm_sample panel5 resid5) (\<lambda>u. Inr (nrows u)) = Inr 4"
  by (simp add: ecm_sample_def ecm_terms_frame_def ecm_outcome_frame_def add_diff_term_def
        panel5_def resid5_def frame_eval Let_def cong: bind_err_weak_cong)

lemma estimate_ecm_panel5:
  "estimate_ecm lib panel5 resid5 [] = Inr (ecm_insufficient 4)"
proof -
  note s = returned_value [OF ecm_sample_panel5, THEN conjunct1]
  note n = returned_value [OF ecm_sample_panel5, THEN conjunct2]
  from estimate_ecm_short [OF s, of lib "[]"] n show ?thesis by simp
qed





lemma save_latex_ecm_insufficient:
  "save_latex_ecm (ecm_insufficient n) = Inl (KeyError ''bw'')"
  by (simp add: save_latex_ecm_def ecm_insufficient_def getnum_def getitem_def)

lemma save_latex_ecm_default:
  "save_latex_ecm ecm_summary_default
     = Inr \<lparr>phi_cell = NA, psi_cell = NA, hl_cell = NA, bw_cell = NA, n_cell = VInt 0\<rparr>"
  by (simp add: save_latex_ecm_def ecm_summary_default_def getnum_def getitem_def)

text \<open>
  C9. With an open gate and fewer than 30 usable rows, \<open>estimate_ecm\<close> returns its
  all-NaN record, which has no \<open>bw\<close> key; rendering the ECM table then raises
  \<open>KeyError\<close>, which nothing catches, so the batch run stops.
\<close>

theorem ecm_stage_short_sample_raises:
  assumes "isfinite eg_p" and "flt eg_p (Fin (5 / 100))"
    and "estimate_ecm lib df res [] = Inr (ecm_insufficient n)"
  shows "ecm_stage lib df eg_p res = Inl (KeyError ''bw'')"
  using assms by (simp add: ecm_stage_def ecm_gate_def save_latex_ecm_insufficient)

theorem ecm_stage_short_sample_witness:
  "isfinite (Fin (1 / 100)) \<and> flt (Fin (1 / 100)) (Fin (5 / 100))
   \<and> estimate_ecm ecm_lib panel5 resid5 [] = Inr (ecm_insufficient 4)
   \<and> ecm_stage ecm_lib panel5 (Fin (1 / 100)) resid5 = Inl (KeyError ''bw'')"
  using ecm_stage_short_sample_raises [of "Fin (1 / 100)" ecm_lib panel5 resid5 4]
  by (simp add: estimate_ecm_panel5)

text \<open>The Johansen test on fewer than 50 complete rows returns the empty table.\<close>

lemma johansen_insufficient:
  assumes "get_cols df series = Inr vs" and "length (complete_rows vs (nrows df)) < 50"
  shows "johansen_tests lib df series det_order k_ar_diff = Inr []"
  using assms by (simp add: johansen_tests_def)

text \<open>With a closed gate the default record is rendered with every cell \<open>N/A\<close>.\<close>

lemma ecm_stage_closed_gate:
  assumes "\<not> (isfinite eg_p \<and> flt eg_p (Fin (5 / 100)))"
  shows "ecm_stage lib df eg_p res
           = Inr \<lparr>phi_cell = NA, psi_cell = NA, hl_cell = NA, bw_cell = NA, n_cell = VInt 0\<rparr>"
  using assms by (auto simp: ecm_stage_def ecm_gate_def save_latex_ecm_default)

subsection \<open>The half-life\<close>

lemma ln_half_neg: "ln (1 / 2 :: real) < 0"
  by simp

text \<open>
  C6 (as amended). The sum \<open>1 + \<phi>\<close> is formed in \<open>float64\<close>. For a finite adjustment speed
  \<open>\<phi>\<close> with \<open>1 + \<phi> > 0\<close> whose rounded sum is not \<open>1\<close>, the half-life is the finite value
  \<open>ln 0.5 / ln (1 + \<phi>)\<close> of the rounded sum; when the rounded sum is \<open>1\<close> the denominator is
  zero and the quotient is minus infinity; for \<open>1 + \<phi> \<le> 0\<close> and for NaN the half-life is
  NaN; for an infinite \<open>\<phi>\<close> it is NaN at minus infinity and zero at plus infinity. The
  record of a fit carries the half-life of the fit's coefficient on the lagged residual.
\<close>

theorem half_life_cases:
  "half_life_days (Fin r)
     = (if 0 < 1 + r
        then (if round53 (1 + r) = 1 then NInf else Fin (ln (1 / 2) / ln (round53 (1 + r))))
        else NaN)
   \<and> half_life_days NaN = NaN
   \<and> half_life_days NInf = NaN
   \<and> half_life_days PInf = Fin 0
   \<and> getitem (ecm_fitted fit n bw) ''half_life_days''
       = Inr (VFloat (half_life_days (get_or (params fit) ''ECT_lag1'' NaN)))"
proof -
  have "half_life_days (Fin r)
     = (if 0 < 1 + r
        then (if round53 (1 + r) = 1 then NInf else Fin (ln (1 / 2) / ln (round53 (1 + r))))
        else NaN)"
  proof (cases "0 < 1 + r")
    case True
    then have pos: "0 < round53 (1 + r)" by (simp add: round53_pos_iff)
    then have "ln (round53 (1 + r)) = 0 \<longleftrightarrow> round53 (1 + r) = 1"
      by (simp add: ln_eq_zero_iff)
    with True pos ln_half_neg show ?thesis
      by (auto simp: half_life_days_def fadd64_def fgt_def)
  next
    case False
    then have "\<not> 0 < round53 (1 + r)" by (simp add: round53_pos_iff)
    with False show ?thesis by (simp add: half_life_days_def fadd64_def fgt_def)
  qed
  moreover have "half_life_days NaN = NaN" "half_life_days NInf = NaN"
    "half_life_days PInf = Fin 0"
    by (simp_all add: half_life_days_def fadd64_def fgt_def)
  ultimately show ?thesis using ecm_fitted_items(7) by simp
qed

text \<open>
  The claim as stated fails at \<open>\<phi> = 0\<close>, and at every \<open>\<phi>\<close> that the addition absorbs, such
  as \<open>\<phi> = 1e-17\<close>: there \<open>1 + \<phi> > 0\<close>, but the reported half-life is minus infinity, not a
  finite value.
\<close>

theorem half_life_counterexample:
  "(0 :: real) < 1 + 0 \<and> half_life_days (Fin 0) = NInf \<and> \<not> isfinite (half_life_days (Fin 0))
   \<and> (0 :: real) < 1 + 1 / 10 ^ 17 \<and> half_life_days (Fin (1 / 10 ^ 17)) = NInf"
proof -
  have "round53 (1 + 1 / 10 ^ 17) = 1"
    by (rule round53_below_half_ulp) simp_all
  moreover have "round53 (1 + 0) = 1" by (simp add: round53_one)
  ultimately show ?thesis
    using ln_half_neg by (simp add: half_life_days_def fadd64_def fgt_def)
qed

text \<open>The same holds on the whole interval of values that the addition absorbs.\<close>

lemma half_life_absorbed:
  assumes "- (1 / 2 ^ 54) < r" and "r < 1 / 2 ^ 53"
  shows "half_life_days (Fin r) = NInf"
proof -
  have one: "round53 (1 + r) = 1"
  proof (cases "0 \<le> r")
    case True
    with assms show ?thesis by (intro round53_below_half_ulp)
  next
    case False
    with assms show ?thesis by (intro round53_above_half_ulp) simp_all
  qed
  then show ?thesis
    using ln_half_neg by (simp add: half_life_days_def fadd64_def fgt_def)
qed

subsection \<open>The Koyck long-run effect\<close>

lemma koyck_long_run_finite:
  "koyck_long_run (Fin rho) (Fin s)
     = (if rho < 1 then (Fin (s / (1 - rho)), semi_elasticity (Fin (s / (1 - rho))))
        else (NaN, NaN))"
  by (simp add: koyck_long_run_def fsub_def)

lemma koyck_returns:
  assumes "get_col (data est) (outcome est) = Inr yv"
    and "dmatrices (outcome est) (koyck_rhs est tt)
           (dropna (set_col ''log_base_fee_lag1'' (shift 1 yv) (data est))) = Inr d"
    and "hac_fit lib d (andrews_bandwidth lib (length (endog d))) = Inr fit"
    and "getitem (params fit) ''log_base_fee_lag1'' = Inr rho"
    and "getitem (params fit) (treatment est) = Inr s"
  shows "\<exists>e. estimate_koyck_lag lib tt est = Inr (koyck_record fit rho s (length (endog d)), e)"
  using assms by (simp add: estimate_koyck_lag_def Let_def)

lemma koyck_record_long_run:
  "getitem (koyck_record fit rho s n) ''long_run_effect''
     = Inr (VFloat (if flt rho (Fin 1) then fdiv s (fsub (Fin 1) rho) else NaN))"
  by (simp add: koyck_record_def koyck_long_run_def getitem_def)

lemma koyck_result:
  assumes "estimate_koyck_lag lib tt est = Inr (r, e)"
  shows "\<exists>fit rho s n. r = koyck_record fit rho s n
           \<and> getitem (params fit) ''log_base_fee_lag1'' = Inr rho
           \<and> getitem (params fit) (treatment est) = Inr s"
  using assms
  by (auto simp: estimate_koyck_lag_def bind_err_def Let_def split: sum.splits)

text \<open>
  C5 (as amended). For finite estimates the long-run effect is \<open>short_run / (1 - \<rho>)\<close> when
  \<open>\<rho> < 1\<close>; whenever \<open>\<rho> < 1\<close> is false (\<open>\<rho> \<ge> 1\<close>, or \<open>\<rho>\<close> is NaN) the long-run effect and its
  semi-elasticity are NaN. Whenever \<open>estimate_koyck_lag\<close> returns, its record carries that
  value for the fit's coefficients; and once the HAC fit has produced both coefficients
  the operation returns a record, whatever the value of \<open>\<rho>\<close>.
\<close>

theorem koyck_long_run_cases:
  "koyck_long_run (Fin rho) (Fin s)
     = (if rho < 1 then (Fin (s / (1 - rho)), semi_elasticity (Fin (s / (1 - rho))))
        else (NaN, NaN))
   \<and> (\<not> flt rho' (Fin 1) \<longrightarrow> koyck_long_run rho' s' = (NaN, NaN))
   \<and> (estimate_koyck_lag lib tt est = Inr (r, e) \<longrightarrow>
        (\<exists>fit rho s n. r = koyck_record fit rho s n
           \<and> getitem (params fit) ''log_base_fee_lag1'' = Inr rho
           \<and> getitem (params fit) (treatment est) = Inr s
           \<and> getitem r ''long_run_effect''
               = Inr (VFloat (if flt rho (Fin 1) then fdiv s (fsub (Fin 1) rho) else NaN))))
   \<and> (get_col (data est) (outcome est) = Inr yv
        \<and> dmatrices (outcome est) (koyck_rhs est tt)
             (dropna (set_col ''log_base_fee_lag1'' (shift 1 yv) (data est))) = Inr d
        \<and> hac_fit lib d (andrews_bandwidth lib (length (endog d))) = Inr fit'
        \<and> getitem (params fit') ''log_base_fee_lag1'' = Inr rho''
        \<and> getitem (params fit') (treatment est) = Inr s''
      \<longrightarrow> (\<exists>e'. estimate_koyck_lag lib tt est
                    = Inr (koyck_record fit' rho'' s'' (length (endog d)), e')))"
proof -
  have a: "\<not> flt rho' (Fin 1) \<longrightarrow> koyck_long_run rho' s' = (NaN, NaN)"
    by (simp add: koyck_long_run_def)
  have b: "estimate_koyck_lag lib tt est = Inr (r, e) \<longrightarrow>
        (\<exists>fit rho s n. r = koyck_record fit rho s n
           \<and> getitem (params fit) ''log_base_fee_lag1'' = Inr rho
           \<and> getitem (params fit) (treatment est) = Inr s
           \<and> getitem r ''long_run_effect''
               = Inr (VFloat (if flt rho (Fin 1) then fdiv s (fsub (Fin 1) rho) else NaN)))"
    using koyck_result koyck_record_long_run by blast
  from koyck_long_run_finite a b koyck_returns show ?thesis by blast
qed

text \<open>
  The claim as stated fails: at \<open>\<rho> = 1\<close> the reported long-run effect is NaN, the very value
  that marks a missing cell (here the first cell of a shifted column), not a sentinel of
  its own.
\<close>

theorem koyck_undefined_is_nan:
  "\<not> (1 :: real) < 1
   \<and> koyck_long_run (Fin 1) (Fin 2) = (NaN, NaN)
   \<and> isnan (fst (koyck_long_run (Fin 1) (Fin 2)))
   \<and> fst (koyck_long_run (Fin 1) (Fin 2)) = hd (shift 1 [Fin 2])
   \<and> bind_err (estimate_koyck_lag unit_root_lib False estimator10)
        (\<lambda>(r, e). Inr (map_of r ''rho'', map_of r ''long_run_effect''))
      = Inr (Some (VFloat (Fin 1)), Some (VFloat NaN))"
  by (simp add: estimate_koyck_lag_def koyck_record_def koyck_long_run_def levels_eval lib_eval
        frame_eval Let_def cong: bind_err_weak_cong)

theorem koyck_long_run_witness:
  "koyck_long_run (Fin (1 / 2)) (Fin (1 / 2)) = (Fin 1, semi_elasticity (Fin 1))
   \<and> \<not> flt PInf (Fin 1) \<and> koyck_long_run PInf (Fin 2) = (NaN, NaN)
   \<and> bind_err (estimate_koyck_lag levels_lib False estimator10)
        (\<lambda>(r, e). Inr (map_of r ''rho'', map_of r ''long_run_effect''))
      = Inr (Some (VFloat (Fin (1 / 2))), Some (VFloat (Fin 1)))"
proof -
  have "koyck_long_run (Fin (1 / 2)) (Fin (1 / 2)) = (Fin 1, semi_elasticity (Fin 1))"
    using koyck_long_run_cases [of "1 / 2" "1 / 2"] by simp
  moreover have "koyck_long_run PInf (Fin 2) = (NaN, NaN)"
    using koyck_long_run_cases [of _ _ PInf "Fin 2"] by simp
  moreover have "bind_err (estimate_koyck_lag levels_lib False estimator10)
        (\<lambda>(r, e). Inr (map_of r ''rho'', map_of r ''long_run_effect''))
      = Inr (Some (VFloat (Fin (1 / 2))), Some (VFloat (Fin 1)))"
    by (simp add: estimate_koyck_lag_def koyck_record_def koyck_long_run_def levels_eval lib_eval
        frame_eval Let_def cong: bind_err_weak_cong)
  ultimately show ?thesis by simp
qed

subsection \<open>The Prais--Winsten transform at zero autocorrelation\<close>

lemma first_scale_zero: "first_scale (Fin 0) = Fin 1"
  by (simp add: first_scale_def fsub_def)

lemma scale_one_finite: "isfinite x \<Longrightarrow> fmul (Fin 1) x = x"
  by (cases x) simp_all

lemma quasi_diff_zero: "isfinite x \<Longrightarrow> isfinite p \<Longrightarrow> quasi_diff (Fin 0) x p = x"
  by (cases x; cases p) (simp_all add: quasi_diff_def fsub_def)

lemma map_scale_one: "list_all isfinite xs \<Longrightarrow> map (fmul (Fin 1)) xs = xs"
  by (induction xs) (simp_all add: scale_one_finite)

lemma map2_quasi_diff_zero:
  "list_all isfinite xs \<Longrightarrow> list_all isfinite ps \<Longrightarrow> length xs \<le> length ps
     \<Longrightarrow> map2 (quasi_diff (Fin 0)) xs ps = xs"
proof (induction xs arbitrary: ps)
  case Nil
  then show ?case by simp
next
  case (Cons x xs)
  then obtain p ps' where ps: "ps = p # ps'" by (cases ps) auto
  with Cons show ?case by (simp add: quasi_diff_zero)
qed

lemma list_all_butlast: "list_all P xs \<Longrightarrow> list_all P (butlast xs)"
  by (induction xs) auto

lemma transform_vector_zero:
  assumes "y \<noteq> []" and "list_all isfinite y"
  shows "transform_vector (Fin 0) y = Inr y"
proof -
  from assms obtain y0 rest where y: "y = y0 # rest" by (cases y) auto
  with assms have fin: "isfinite y0" "list_all isfinite rest" by simp_all
  from assms have "list_all isfinite (butlast y)" by (rule_tac list_all_butlast)
  moreover have "length rest \<le> length (butlast y)" using y by simp
  ultimately have "map2 (quasi_diff (Fin 0)) rest (butlast y) = rest"
    using fin by (intro map2_quasi_diff_zero)
  with y fin show ?thesis
    by (simp add: transform_vector_def first_scale_zero scale_one_finite)
qed

text \<open>Rows below the first are transformed entry by entry against the row above.\<close>

lemma map2_rows_zero:
  "list_all (list_all isfinite) xs \<Longrightarrow> list_all (list_all isfinite) ps
     \<Longrightarrow> list_all (\<lambda>r. length r = k) xs \<Longrightarrow> list_all (\<lambda>r. length r = k) ps
     \<Longrightarrow> length xs \<le> length ps
     \<Longrightarrow> map2 (\<lambda>x x_prev. map2 (quasi_diff (Fin 0)) x x_prev) xs ps = xs"
proof (induction xs arbitrary: ps)
  case Nil
  then show ?case by simp
next
  case (Cons x xs)
  then obtain p ps' where ps: "ps = p # ps'" by (cases ps) auto
  with Cons have "map2 (quasi_diff (Fin 0)) x p = x"
    by (intro map2_quasi_diff_zero) simp_all
  with Cons ps show ?case by simp
qed

lemma transform_matrix_zero:
  assumes "X \<noteq> []" and "list_all (list_all isfinite) X" and "list_all (\<lambda>r. length r = k) X"
  shows "transform_matrix (Fin 0) X = Inr X"
proof -
  from assms obtain x0 rest where X: "X = x0 # rest" by (cases X) auto
  with assms have fin: "list_all isfinite x0" "list_all (list_all isfinite) rest"
    and len: "list_all (\<lambda>r. length r = k) rest" by simp_all
  have "list_all (list_all isfinite) (butlast X)" "list_all (\<lambda>r. length r = k) (butlast X)"
    using assms by (simp_all add: list_all_butlast)
  moreover have "length rest \<le> length (butlast X)" using X by simp
  ultimately have "map2 (\<lambda>x x_prev. map2 (quasi_diff (Fin 0)) x x_prev) rest (butlast X) = rest"
    using fin len by (intro map2_rows_zero)
  with X fin show ?thesis
    by (simp add: transform_matrix_def first_scale_zero map_scale_one)
qed

text \<open>
  C7. On a well-formed design the Prais--Winsten transform with \<open>\<rho> = 0\<close> returns the design
  unchanged, so ordinary least squares on the transformed data is the fit on the original
  data: the same coefficient vector.
\<close>

theorem prais_winsten_zero_rho:
  assumes "finite_design d"
  shows "prais_winsten (Fin 0) d = Inr d \<and> fgls_refit lib (Fin 0) d = ols_fit lib d"
proof -
  from assms have "transform_vector (Fin 0) (endog d) = Inr (endog d)"
    by (simp add: finite_design_def transform_vector_zero)
  moreover from assms have "transform_matrix (Fin 0) (exog d) = Inr (exog d)"
    by (intro transform_matrix_zero [where k = "length (exog_names d)"])
       (simp_all add: finite_design_def)
  ultimately have "prais_winsten (Fin 0) d = Inr d"
    by (simp add: prais_winsten_def)
  then show ?thesis by (simp add: fgls_refit_def)
qed

theorem prais_winsten_zero_rho_witness:
  "finite_design design3 \<and> prais_winsten (Fin 0) design3 = Inr design3
   \<and> fgls_refit levels_lib (Fin 0) design3 = ols_fit levels_lib design3"
  using prais_winsten_zero_rho [of design3 levels_lib]
  by (simp add: finite_design_def design3_def)

subsection \<open>Semi-elasticity\<close>

lemma main_effect_items:
  "getitem (main_effect ols beta se ci pval bw n) ''semi_elasticity''
     = Inr (VFloat (semi_elasticity beta))"
  "getitem (main_effect ols beta se ci pval bw n) ''semi_se''
     = Inr (VFloat (delta_method_se beta se))"
  by (simp_all add: main_effect_def getitem_def)

text \<open>
  C8. At \<open>\<beta> = 0\<close> the semi-elasticity \<open>100 (exp (0.10 \<beta>) - 1)\<close> is exactly 0 and its
  delta-method standard error is exactly \<open>10 SE(\<beta>)\<close>, for every standard error (finite,
  infinite or NaN); the main specification reports these two values.
\<close>

theorem semi_elasticity_at_zero:
  "semi_elasticity (Fin 0) = Fin 0
   \<and> delta_method_se (Fin 0) se = fmul (Fin 10) se
   \<and> delta_method_se (Fin 0) (Fin s) = Fin (10 * s)
   \<and> getitem (main_effect ols (Fin 0) se ci pval bw n) ''semi_elasticity'' = Inr (VFloat (Fin 0))
   \<and> getitem (main_effect ols (Fin 0) se ci pval bw n) ''semi_se''
       = Inr (VFloat (fmul (Fin 10) se))"
  by (simp add: main_effect_items semi_elasticity_def delta_method_se_def fsub_def)

subsection \<open>Operations on one estimator\<close>

text \<open>The five operations on a fresh twelve-row estimator.\<close>

lemma main_spec_estimator12:
  "bind_err (estimate_main_spec levels_lib False estimator12)
     (\<lambda>(r, e). Inr (map fst r, map_of r ''n_obs'', diagnostics e))
   = Inr ([''beta'', ''se'', ''ci_lower'', ''ci_upper'', ''pvalue'', ''semi_elasticity'',
           ''semi_se'', ''bandwidth'', ''n_obs'', ''r_squared'', ''r_squared_adj''],
          Some (VInt 12),
          [(''ljung_box'', ljung_box_entry (replicate 10 (Fin 0), replicate 10 (Fin 1))),
           (''white_test'', white_entry (Fin 0, Fin 1)),
           (''durbin_watson'', VFloat (Fin 2))])"
  by (simp add: estimate_main_spec_def main_effect_def run_diagnostics_def levels_eval
        lib_eval frame_eval Let_def cong: bind_err_weak_cong)

lemma fgls_estimator12:
  "bind_err (estimate_fgls levels_lib estimator12)
     (\<lambda>(r, e). Inr (map fst r, map_of r ''n_obs'', map_of r ''durbin_watson'', diagnostics e))
   = Inr ([''model'', ''beta'', ''se'', ''semi_elasticity'', ''rho'', ''durbin_watson'',
           ''n_obs''],
          Some (VInt 12), Some (VFloat (Fin 2)), [])"
  by (simp add: estimate_fgls_def fgls_refit_def prais_winsten_def transform_vector_def
        transform_matrix_def quasi_diff_def first_scale_def nth_err_def levels_eval lib_eval
        frame_eval Let_def cong: bind_err_weak_cong)

lemma distributed_lags_estimator12:
  "bind_err (estimate_distributed_lags levels_lib [1, 7] estimator12)
     (\<lambda>(r, e). Inr (map fst r, map_of r ''n_obs'', diagnostics e))
   = Inr ([''model'', ''contemporaneous'', ''lags'', ''long_run_effect'',
           ''long_run_semi_elasticity'', ''n_obs''],
          Some (VInt 5), [])"
  by (simp add: estimate_distributed_lags_def levels_eval lib_eval frame_eval Let_def
        cong: bind_err_weak_cong)

lemma koyck_estimator12:
  "bind_err (estimate_koyck_lag levels_lib False estimator12)
     (\<lambda>(r, e). Inr (map fst r, map_of r ''n_obs'', diagnostics e))
   = Inr ([''model'', ''rho'', ''short_run_effect'', ''long_run_effect'',
           ''long_run_semi_elasticity'', ''adjustment_speed'', ''n_obs''],
          Some (VInt 11), [])"
  by (simp add: estimate_koyck_lag_def koyck_record_def levels_eval lib_eval frame_eval Let_def
        cong: bind_err_weak_cong)

lemma differences_estimator12:
  "bind_err (estimate_differences_robustness levels_lib estimator12)
     (\<lambda>(r, e). Inr (map fst r, map_of r ''n_obs'', diagnostics e))
   = Inr ([''model'', ''beta'', ''se'', ''translation_box'', ''n_obs''], Some (VInt 11), [])"
  by (simp add: estimate_differences_robustness_def add_differences_def
        create_translation_box_def levels_eval lib_eval frame_eval Let_def
        cong: bind_err_weak_cong)

text \<open>
  On ten rows the main specification raises: the Ljung--Box test has as many lags as
  residuals.
\<close>

lemma main_spec_estimator10_raises:
  "estimate_main_spec levels_lib False estimator10 = Inl LibraryError"
  by (simp add: estimate_main_spec_def main_effect_def run_diagnostics_def levels_eval
        lib_eval frame_eval Let_def cong: bind_err_weak_cong)

text \<open>
  C3. On a fresh ten-row estimator the Koyck regression uses nine rows. After
  \<open>estimate_distributed_lags\<close> with lags 1 and 7 on the same estimator, the lag columns
  it left in the panel make \<open>dropna\<close> discard seven rows, and the same Koyck call uses three.
\<close>

theorem koyck_depends_on_earlier_calls:
  "bind_err (estimate_koyck_lag levels_lib False estimator10)
     (\<lambda>(r, e). Inr (map_of r ''n_obs'')) = Inr (Some (VInt 9))
   \<and> bind_err (estimate_distributed_lags levels_lib [1, 7] estimator10)
       (\<lambda>(r1, e1). bind_err (estimate_koyck_lag levels_lib False e1)
          (\<lambda>(r, e). Inr (map_of r ''n_obs''))) = Inr (Some (VInt 3))"
  by (simp add: estimate_koyck_lag_def estimate_distributed_lags_def koyck_record_def
        levels_eval lib_eval frame_eval Let_def cong: bind_err_weak_cong)

subsection \<open>Where the residual diagnostics go\<close>

lemma run_diagnostics_entries:
  assumes "run_diagnostics lib m d diag = Inr diag'"
  shows "\<exists>lb w. acorr_ljungbox lib (resid m) 10 = Inr lb
           \<and> het_white lib (resid m) (exog d) = Inr w
           \<and> diag' = AList.update ''durbin_watson'' (VFloat (durbin_watson lib (resid m)))
                       (AList.update ''white_test'' (white_entry w)
                         (AList.update ''ljung_box'' (ljung_box_entry lb) diag))"
  using assms
  by (auto simp: run_diagnostics_def bind_err_def Let_def split: sum.splits)

lemma stored_entries:
  "map_of (AList.update ''durbin_watson'' c
             (AList.update ''white_test'' b (AList.update ''ljung_box'' a diag))) ''ljung_box''
     = Some a"
  "map_of (AList.update ''durbin_watson'' c
             (AList.update ''white_test'' b (AList.update ''ljung_box'' a diag))) ''white_test''
     = Some b"
  "map_of (AList.update ''durbin_watson'' c
             (AList.update ''white_test'' b (AList.update ''ljung_box'' a diag)))
       ''durbin_watson''
     = Some c"
  by (simp_all add: update_conv')

lemma main_spec_shape:
  assumes "estimate_main_spec lib tt est = Inr (r, e)"
  shows "map fst r = [''beta'', ''se'', ''ci_lower'', ''ci_upper'', ''pvalue'',
            ''semi_elasticity'', ''semi_se'', ''bandwidth'', ''n_obs'',
            ''r_squared'', ''r_squared_adj'']
         \<and> (\<exists>d ols lb w.
              dmatrices (outcome est) ([treatment est] @ base_controls @ trend_term tt)
                (data est) = Inr d
              \<and> ols_fit lib d = Inr ols
              \<and> acorr_ljungbox lib (resid ols) 10 = Inr lb
              \<and> het_white lib (resid ols) (exog d) = Inr w
              \<and> map_of (diagnostics e) ''ljung_box'' = Some (ljung_box_entry lb)
              \<and> map_of (diagnostics e) ''white_test'' = Some (white_entry w)
              \<and> map_of (diagnostics e) ''durbin_watson''
                  = Some (VFloat (durbin_watson lib (resid ols))))"
proof -
  from assms obtain d ols ci beta se pval bw n diag where
    d: "dmatrices (outcome est) ([treatment est] @ base_controls @ trend_term tt) (data est)
          = Inr d" and
    ols: "ols_fit lib d = Inr ols" and
    r: "r = main_effect ols beta se ci pval bw n" and
    dg: "run_diagnostics lib ols d (diagnostics est) = Inr diag" and
    e: "diagnostics e = diag"
    by (auto simp: estimate_main_spec_def bind_err_def Let_def split: sum.splits)
  from run_diagnostics_entries [OF dg] obtain lb w where
    lb: "acorr_ljungbox lib (resid ols) 10 = Inr lb" and
    w: "het_white lib (resid ols) (exog d) = Inr w" and
    diag: "diag = AList.update ''durbin_watson'' (VFloat (durbin_watson lib (resid ols)))
                    (AList.update ''white_test'' (white_entry w)
                      (AList.update ''ljung_box'' (ljung_box_entry lb) (diagnostics est)))"
    by blast
  have "map fst r = [''beta'', ''se'', ''ci_lower'', ''ci_upper'', ''pvalue'',
            ''semi_elasticity'', ''semi_se'', ''bandwidth'', ''n_obs'',
            ''r_squared'', ''r_squared_adj'']"
    using r by (simp add: main_effect_def)
  moreover have "map_of (diagnostics e) ''ljung_box'' = Some (ljung_box_entry lb)"
    "map_of (diagnostics e) ''white_test'' = Some (white_entry w)"
    "map_of (diagnostics e) ''durbin_watson'' = Some (VFloat (durbin_watson lib (resid ols)))"
    unfolding e diag by (rule stored_entries)+
  ultimately show ?thesis using d ols lb w by blast
qed

lemma fgls_shape:
  assumes "estimate_fgls lib est = Inr (r, e)"
  shows "map fst r = [''model'', ''beta'', ''se'', ''semi_elasticity'', ''rho'',
            ''durbin_watson'', ''n_obs'']
         \<and> diagnostics e = diagnostics est
         \<and> (\<exists>d ols fgls_results.
              dmatrices (outcome est) ([treatment est] @ base_controls) (data est) = Inr d
              \<and> ols_fit lib d = Inr ols
              \<and> fgls_refit lib (corrcoef lib (butlast (resid ols)) (tl (resid ols))) d
                  = Inr fgls_results
              \<and> map_of r ''durbin_watson''
                  = Some (VFloat (durbin_watson lib (resid fgls_results))))"
proof -
  from assms obtain d ols fg beta se where
    d: "dmatrices (outcome est) ([treatment est] @ base_controls) (data est) = Inr d" and
    ols: "ols_fit lib d = Inr ols" and
    fg: "fgls_refit lib (corrcoef lib (butlast (resid ols)) (tl (resid ols))) d = Inr fg" and
    r: "r = [(''model'', VModel fg), (''beta'', VFloat (snd beta)), (''se'', VFloat (snd se)),
             (''semi_elasticity'', VFloat (semi_elasticity (snd beta))),
             (''rho'', VFloat (corrcoef lib (butlast (resid ols)) (tl (resid ols)))),
             (''durbin_watson'', VFloat (durbin_watson lib (resid fg))),
             (''n_obs'', VInt (int (length (endog d))))]" and
    e: "diagnostics e = diagnostics est"
    by (auto simp: estimate_fgls_def bind_err_def Let_def split: sum.splits)
  from r have "map fst r = [''model'', ''beta'', ''se'', ''semi_elasticity'', ''rho'',
            ''durbin_watson'', ''n_obs'']"
    and "map_of r ''durbin_watson'' = Some (VFloat (durbin_watson lib (resid fg)))"
    by simp_all
  with d ols fg e show ?thesis by blast
qed

lemma distributed_lags_shape:
  assumes "estimate_distributed_lags lib lags est = Inr (r, e)"
  shows "map fst r = [''model'', ''contemporaneous'', ''lags'', ''long_run_effect'',
            ''long_run_semi_elasticity'', ''n_obs'']
         \<and> diagnostics e = diagnostics est"
  using assms
  by (auto simp: estimate_distributed_lags_def bind_err_def Let_def split: sum.splits)

lemma koyck_shape:
  assumes "estimate_koyck_lag lib tt est = Inr (r, e)"
  shows "map fst r = [''model'', ''rho'', ''short_run_effect'', ''long_run_effect'',
            ''long_run_semi_elasticity'', ''adjustment_speed'', ''n_obs'']
         \<and> diagnostics e = diagnostics est"
  using assms
  by (auto simp: estimate_koyck_lag_def koyck_record_def bind_err_def Let_def split: sum.splits)

lemma differences_shape:
  assumes "estimate_differences_robustness lib est = Inr (r, e)"
  shows "map fst r = [''model'', ''beta'', ''se'', ''translation_box'', ''n_obs'']
         \<and> diagnostics e = diagnostics est"
  using assms
  by (auto simp: estimate_differences_robustness_def bind_err_def Let_def split: sum.splits)

text \<open>
  C4 (as amended). Only \<open>estimate_main_spec\<close> runs the three residual diagnostics: the
  Ljung--Box test with ten lags, White's test and the Durbin--Watson statistic are computed
  on the residuals of its OLS fit and stored in the estimator's \<open>diagnostics\<close> dictionary,
  not in the record it returns. \<open>estimate_fgls\<close> puts in its record the Durbin--Watson
  statistic of the residuals of its refit on the transformed data, and runs nothing else.
  The distributed-lag, Koyck and first-difference operations run no residual diagnostics:
  their records have no diagnostic entry and the estimator's \<open>diagnostics\<close> is unchanged.
\<close>

theorem diagnostics_placement:
  "(estimate_main_spec lib tt est = Inr (r1, e1) \<longrightarrow>
      map fst r1 = [''beta'', ''se'', ''ci_lower'', ''ci_upper'', ''pvalue'',
                    ''semi_elasticity'', ''semi_se'', ''bandwidth'', ''n_obs'',
                    ''r_squared'', ''r_squared_adj'']
      \<and> (\<exists>d ols lb w.
            dmatrices (outcome est) ([treatment est] @ base_controls @ trend_term tt)
              (data est) = Inr d
            \<and> ols_fit lib d = Inr ols
            \<and> acorr_ljungbox lib (resid ols) 10 = Inr lb
            \<and> het_white lib (resid ols) (exog d) = Inr w
            \<and> map_of (diagnostics e1) ''ljung_box'' = Some (ljung_box_entry lb)
            \<and> map_of (diagnostics e1) ''white_test'' = Some (white_entry w)
            \<and> map_of (diagnostics e1) ''durbin_watson''
                = Some (VFloat (durbin_watson lib (resid ols)))))
   \<and> (estimate_fgls lib est = Inr (r2, e2) \<longrightarrow>
      map fst r2 = [''model'', ''beta'', ''se'', ''semi_elasticity'', ''rho'',
                    ''durbin_watson'', ''n_obs'']
      \<and> diagnostics e2 = diagnostics est
      \<and> (\<exists>d ols fgls_results.
            dmatrices (outcome est) ([treatment est] @ base_controls) (data est) = Inr d
            \<and> ols_fit lib d = Inr ols
            \<and> fgls_refit lib (corrcoef lib (butlast (resid ols)) (tl (resid ols))) d
                = Inr fgls_results
            \<and> map_of r2 ''durbin_watson''
                = Some (VFloat (durbin_watson lib (resid fgls_results)))))
   \<and> (estimate_distributed_lags lib lags est = Inr (r3, e3) \<longrightarrow>
      map fst r3 = [''model'', ''contemporaneous'', ''lags'', ''long_run_effect'',
                    ''long_run_semi_elasticity'', ''n_obs'']
      \<and> diagnostics e3 = diagnostics est)
   \<and> (estimate_koyck_lag lib tt est = Inr (r4, e4) \<longrightarrow>
      map fst r4 = [''model'', ''rho'', ''short_run_effect'', ''long_run_effect'',
                    ''long_run_semi_elasticity'', ''adjustment_speed'', ''n_obs'']
      \<and> diagnostics e4 = diagnostics est)
   \<and> (estimate_differences_robustness lib est = Inr (r5, e5) \<longrightarrow>
      map fst r5 = [''model'', ''beta'', ''se'', ''translation_box'', ''n_obs'']
      \<and> diagnostics e5 = diagnostics est)"
  apply (intro conjI)
      apply (rule impI, erule main_spec_shape)
     apply (rule impI, erule fgls_shape)
    apply (rule impI, erule distributed_lags_shape)
   apply (rule impI, erule koyck_shape)
  apply (rule impI, erule differences_shape)
  done

text \<open>
  The claim as stated fails: the Koyck operation returns a record without any diagnostic
  entry and leaves the estimator's \<open>diagnostics\<close> empty.
\<close>

theorem koyck_runs_no_diagnostics:
  "bind_err (estimate_koyck_lag levels_lib False estimator10)
     (\<lambda>(r, e). Inr (map_of r ''ljung_box'', map_of r ''white_test'',
                   map_of r ''durbin_watson'', diagnostics e))
   = Inr (None, None, None, [])"
  by (simp add: estimate_koyck_lag_def koyck_record_def levels_eval lib_eval frame_eval Let_def
        cong: bind_err_weak_cong)

theorem diagnostics_placement_witness:
  "map_of (diagnostics (snd (projr (estimate_main_spec levels_lib False estimator12))))
       ''ljung_box''
     = Some (ljung_box_entry (replicate 10 (Fin 0), replicate 10 (Fin 1)))
   \<and> map_of (diagnostics (snd (projr (estimate_main_spec levels_lib False estimator12))))
       ''white_test''
     = Some (white_entry (Fin 0, Fin 1))
   \<and> map_of (diagnostics (snd (projr (estimate_main_spec levels_lib False estimator12))))
       ''durbin_watson''
     = Some (VFloat (Fin 2))
   \<and> map fst (fst (projr (estimate_main_spec levels_lib False estimator12)))
       = [''beta'', ''se'', ''ci_lower'', ''ci_upper'', ''pvalue'', ''semi_elasticity'',
          ''semi_se'', ''bandwidth'', ''n_obs'', ''r_squared'', ''r_squared_adj'']
   \<and> map_of (fst (projr (estimate_fgls levels_lib estimator12))) ''durbin_watson''
       = Some (VFloat (Fin 2))
   \<and> diagnostics (snd (projr (estimate_fgls levels_lib estimator12)))
       = diagnostics estimator12
   \<and> diagnostics (snd (projr (estimate_distributed_lags levels_lib [1, 7] estimator12)))
       = diagnostics estimator12
   \<and> diagnostics (snd (projr (estimate_koyck_lag levels_lib False estimator12)))
       = diagnostics estimator12
   \<and> diagnostics (snd (projr (estimate_differences_robustness levels_lib estimator12)))
       = diagnostics estimator12"
proof -
  let ?m = "estimate_main_spec levels_lib False estimator12"
  let ?f = "estimate_fgls levels_lib estimator12"
  let ?l = "estimate_distributed_lags levels_lib [1, 7] estimator12"
  let ?k = "estimate_koyck_lag levels_lib False estimator12"
  let ?d = "estimate_differences_robustness levels_lib estimator12"
  have dw: "durbin_watson levels_lib r = Fin 2" for r
    by (simp add: lib_eval)
  have m: "?m = Inr (fst (projr ?m), snd (projr ?m))"
    using returned_pair [OF main_spec_estimator12] by (rule conjunct1)
  have md: "diagnostics (snd (projr ?m))
      = [(''ljung_box'', ljung_box_entry (replicate 10 (Fin 0), replicate 10 (Fin 1))),
         (''white_test'', white_entry (Fin 0, Fin 1)),
         (''durbin_watson'', VFloat (Fin 2))]"
    using returned_pair [OF main_spec_estimator12] by simp
  have f: "?f = Inr (fst (projr ?f), snd (projr ?f))"
    using returned_pair [OF fgls_estimator12] by (rule conjunct1)
  have l: "?l = Inr (fst (projr ?l), snd (projr ?l))"
    using returned_pair [OF distributed_lags_estimator12] by (rule conjunct1)
  have k: "?k = Inr (fst (projr ?k), snd (projr ?k))"
    using returned_pair [OF koyck_estimator12] by (rule conjunct1)
  have d: "?d = Inr (fst (projr ?d), snd (projr ?d))"
    using returned_pair [OF differences_estimator12] by (rule conjunct1)
  note t = diagnostics_placement
     [where lib = levels_lib and tt = False and est = estimator12 and lags = "[1, 7]"
        and ?r1.0 = "fst (projr ?m)" and ?e1.0 = "snd (projr ?m)"
        and ?r2.0 = "fst (projr ?f)" and ?e2.0 = "snd (projr ?f)"
        and ?r3.0 = "fst (projr ?l)" and ?e3.0 = "snd (projr ?l)"
        and ?r4.0 = "fst (projr ?k)" and ?e4.0 = "snd (projr ?k)"
        and ?r5.0 = "fst (projr ?d)" and ?e5.0 = "snd (projr ?d)"]
  from t m have "map_of (diagnostics (snd (projr ?m))) ''durbin_watson'' = Some (VFloat (Fin 2))"
    and "map fst (fst (projr ?m))
       = [''beta'', ''se'', ''ci_lower'', ''ci_upper'', ''pvalue'', ''semi_elasticity'',
          ''semi_se'', ''bandwidth'', ''n_obs'', ''r_squared'', ''r_squared_adj'']"
    unfolding dw by blast+
  moreover from t f have "map_of (fst (projr ?f)) ''durbin_watson'' = Some (VFloat (Fin 2))"
    and "diagnostics (snd (projr ?f)) = diagnostics estimator12"
    unfolding dw by blast+
  moreover from t l have "diagnostics (snd (projr ?l)) = diagnostics estimator12" by blast
  moreover from t k have "diagnostics (snd (projr ?k)) = diagnostics estimator12" by blast
  moreover from t d have "diagnostics (snd (projr ?d)) = diagnostics estimator12" by blast
  moreover have "map_of (diagnostics (snd (projr ?m))) ''ljung_box''
     = Some (ljung_box_entry (replicate 10 (Fin 0), replicate 10 (Fin 1)))"
    and "map_of (diagnostics (snd (projr ?m))) ''white_test'' = Some (white_entry (Fin 0, Fin 1))"
    unfolding md by simp_all
  ultimately show ?thesis by blast
qed

subsection \<open>Cumulative effects\<close>

lemma map_of_select:
  "map_of (map (\<lambda>(c, v). (c, f v)) cols) c = map_option f (map_of cols c)"
  by (induction cols) auto

lemma get_col_select_rows:
  assumes "get_col fr c = Inr v"
  shows "get_col (select_rows keep fr) c = Inr (map (nth v) keep)"
  using assms
  by (simp add: get_col_def getitem_def select_rows_def map_of_select split: option.splits)

lemma filter_index_zip:
  assumes "length xs = length ys"
  shows "map (nth ys) (filter (\<lambda>i. P (xs ! i)) [0..<length xs])
           = map snd (filter (\<lambda>p. P (fst p)) (zip xs ys))"
  using assms
proof (induction xs arbitrary: ys rule: rev_induct)
  case Nil
  then show ?case by simp
next
  case (snoc x xs)
  then obtain y ys' where ys: "ys = ys' @ [y]" and len: "length xs = length ys'"
    by (cases ys rule: rev_cases) auto
  let ?old = "filter (\<lambda>i. P (xs ! i)) [0..<length xs]"
  have "filter (\<lambda>i. P ((xs @ [x]) ! i)) [0..<length xs] = ?old"
    by (rule filter_cong) (simp_all add: nth_append)
  moreover have "map (nth (ys' @ [y])) ?old = map (nth ys') ?old"
    using len by (intro map_cong) (auto simp: nth_append)
  ultimately have head_part:
    "map (nth (ys' @ [y])) (filter (\<lambda>i. P ((xs @ [x]) ! i)) [0..<length xs])
       = map snd (filter (\<lambda>p. P (fst p)) (zip xs ys'))"
    using snoc.IH [OF len] by simp
  have tail_part:
    "map (nth (ys' @ [y])) (filter (\<lambda>i. P ((xs @ [x]) ! i)) [length xs])
       = map snd (filter (\<lambda>p. P (fst p)) [(x, y)])"
  proof -
    have "(xs @ [x]) ! length xs = x" by simp
    moreover have "(ys' @ [y]) ! length xs = y" using len by simp
    ultimately show ?thesis by simp
  qed
  have "[0..<length (xs @ [x])] = [0..<length xs] @ [length xs]"
    by simp
  moreover have "zip (xs @ [x]) (ys' @ [y]) = zip xs ys' @ [(x, y)]"
    using len by simp
  ultimately show ?case
    unfolding ys by (simp only: filter_append map_append head_part tail_part)
qed

lemma cumulative_row_beta_cum:
  assumes "get_col summary ''h'' = Inr hs" and "get_col summary ''beta'' = Inr betas"
    and "length hs = nrows summary" and "length betas = nrows summary"
    and "cumulative_row summary outc H = Inr row"
  shows "map_of row ''beta_cum'' = Some (VFloat (nansum (betas_upto hs betas H)))"
proof -
  let ?keep = "filter (\<lambda>i. fle (hs ! i) (Fin (real_of_int H))) [0..<nrows summary]"
  have sub: "rows_upto summary H = Inr (select_rows ?keep summary)"
    using assms(1) by (simp add: rows_upto_def)
  have "map (nth betas) ?keep = betas_upto hs betas H"
    using filter_index_zip [of hs betas "\<lambda>h. fle h (Fin (real_of_int H))"] assms(3,4)
    by (simp add: betas_upto_def)
  then have b: "get_col (select_rows ?keep summary) ''beta'' = Inr (betas_upto hs betas H)"
    using get_col_select_rows [OF assms(2), of ?keep] by simp
  from assms(5) show ?thesis
    by (auto simp: cumulative_row_def sub b bind_err_def Let_def
             split: sum.splits if_splits prod.splits)
qed

lemma compute_cumulative_beta_cum:
  assumes "get_col summary ''h'' = Inr hs" and "get_col summary ''beta'' = Inr betas"
    and "length hs = nrows summary" and "length betas = nrows summary"
  shows "compute_cumulative summary horizons outc = Inr rows \<Longrightarrow>
         map (\<lambda>row. map_of row ''beta_cum'') rows
           = map (\<lambda>H. Some (VFloat (nansum (betas_upto hs betas H)))) horizons"
proof (induction horizons arbitrary: rows)
  case Nil
  then show ?case by simp
next
  case (Cons H horizons)
  then obtain row rest where
    r: "cumulative_row summary outc H = Inr row" and
    rs: "compute_cumulative summary horizons outc = Inr rest" and
    rows: "rows = row # rest"
    by (auto simp: bind_err_def split: sum.splits)
  from cumulative_row_beta_cum [OF assms r] Cons.IH [OF rs] rows show ?case by simp
qed

lemma cum8: "bind_err (compute_cumulative summary8 [1, 7] ''log_base_fee'')
       (\<lambda>rows. Inr (map (\<lambda>row. map_of row ''beta_cum'') rows))
     = Inr [Some (VFloat (Fin 3)), Some (VFloat (Fin 36))]"
  by (simp add: cumulative_row_def rows_upto_def se_cum_def se_col_def conservative_bounds_def
        nansum_def summary8_def frame_eval Let_def cong: bind_err_weak_cong)

text \<open>
  C1 (as amended). For each \<open>H\<close> of the horizon set, \<open>beta_cum\<close> is the sum (NaN skipped) of the
  point estimates of all summary rows with \<open>h \<le> H\<close>. On a summary with rows \<open>h = 0, ..., 7\<close>
  and the horizon set \<open>{1, 7}\<close> this is \<open>\<beta>\<^sub>0 + \<beta>\<^sub>1\<close> for \<open>H = 1\<close> and \<open>\<beta>\<^sub>0 + ... + \<beta>\<^sub>7\<close> for
  \<open>H = 7\<close>.
\<close>

theorem beta_cum_is_running_sum:
  assumes "get_col summary ''h'' = Inr hs" and "get_col summary ''beta'' = Inr betas"
    and "length hs = nrows summary" and "length betas = nrows summary"
    and "compute_cumulative summary horizons outc = Inr rows"
  shows "map (\<lambda>row. map_of row ''beta_cum'') rows
           = map (\<lambda>H. Some (VFloat (nansum (betas_upto hs betas H)))) horizons"
  using compute_cumulative_beta_cum [OF assms(1-4)] assms(5) by blast

theorem beta_cum_is_running_sum_witness:
  "get_col summary8 ''h'' = Inr [Fin 0, Fin 1, Fin 2, Fin 3, Fin 4, Fin 5, Fin 6, Fin 7]
   \<and> get_col summary8 ''beta'' = Inr [Fin 1, Fin 2, Fin 3, Fin 4, Fin 5, Fin 6, Fin 7, Fin 8]
   \<and> nrows summary8 = 8
   \<and> map (\<lambda>row. map_of row ''beta_cum'')
         (projr (compute_cumulative summary8 [1, 7] ''log_base_fee''))
       = [Some (VFloat (nansum [Fin 1, Fin 2])),
          Some (VFloat (nansum [Fin 1, Fin 2, Fin 3, Fin 4, Fin 5, Fin 6, Fin 7, Fin 8]))]"
proof -
  let ?hs = "[Fin 0, Fin 1, Fin 2, Fin 3, Fin 4, Fin 5, Fin 6, Fin 7]"
  let ?bs = "[Fin 1, Fin 2, Fin 3, Fin 4, Fin 5, Fin 6, Fin 7, Fin 8]"
  have h: "get_col summary8 ''h'' = Inr ?hs" and b: "get_col summary8 ''beta'' = Inr ?bs"
    and n: "nrows summary8 = 8"
    by (simp_all add: summary8_def get_col_def getitem_def)
  have ret: "compute_cumulative summary8 [1, 7] ''log_base_fee''
               = Inr (projr (compute_cumulative summary8 [1, 7] ''log_base_fee''))"
    using cum8 by (rule not_isl_bind)
  have "betas_upto ?hs ?bs 1 = [Fin 1, Fin 2]" "betas_upto ?hs ?bs 7 = ?bs"
    by (simp_all add: betas_upto_def)
  with beta_cum_is_running_sum [OF h b _ _ ret] h b n show ?thesis
    by simp
qed

text \<open>
  The claim as stated fails: on the summary with \<open>\<beta>\<^sub>h = h + 1\<close> the two cumulative values for
  the horizon set \<open>{1, 7}\<close> are 3 and 36, while \<open>\<beta>\<^sub>1 + \<beta>\<^sub>7 = 10\<close>.
\<close>

theorem beta_cum_counterexample:
  "bind_err (compute_cumulative summary8 [1, 7] ''log_base_fee'')
     (\<lambda>rows. Inr (map (\<lambda>row. map_of row ''beta_cum'') rows))
   = Inr [Some (VFloat (Fin 3)), Some (VFloat (Fin 36))]
   \<and> bind_err (get_col summary8 ''beta'') (\<lambda>b. Inr (fadd (b ! 1) (b ! 7))) = Inr (Fin 10)"
  using cum8 by (simp add: summary8_def get_col_def getitem_def)

subsection \<open>The moving-block bootstrap\<close>

text \<open>
  The bootstrap returns whenever the block length is positive or left to its default; a
  negative seed makes it raise before anything is drawn.
\<close>

lemma draw_indices_returns:
  assumes "1 \<le> block_len"
  shows "\<exists>r. draw_indices R n_eff block_len indices g = Some r"
proof (induction "n_eff - length indices" arbitrary: indices g rule: less_induct)
  case less
  show ?case
  proof (cases "length indices < n_eff")
    case False
    then show ?thesis by (subst draw_indices.simps) simp
  next
    case True
    show ?thesis
    proof (cases "rng_integers R g 0 (int n_eff - block_len + 1)")
      case (Inl e)
      with True show ?thesis by (subst draw_indices.simps) simp
    next
      case (Inr sg)
      let ?next = "indices @ [fst sg..fst sg + block_len - 1]"
      from assms have "length ?next > length indices" by simp
      with True have "n_eff - length ?next < n_eff - length indices" by arith
      from less [OF this] obtain r where
        "draw_indices R n_eff block_len ?next (snd sg) = Some r" by blast
      with True Inr show ?thesis by (subst draw_indices.simps) simp
    qed
  qed
qed

lemma boot_loop_returns:
  assumes "1 \<le> block_len"
  shows "\<exists>r. boot_loop R lib base block_len B g = Some r"
proof (induction B arbitrary: g)
  case 0
  then show ?case by simp
next
  case (Suc B)
  from draw_indices_returns [OF assms, of R "nrows base" "[]" g] obtain r where
    r: "draw_indices R (nrows base) block_len [] g = Some r" by blast
  show ?case
  proof (cases r)
    case (Inl e)
    with r show ?thesis by simp
  next
    case (Inr ig)
    from Suc [of "snd ig"] obtain r' where
      "boot_loop R lib base block_len B (snd ig) = Some r'" by blast
    with r Inr show ?thesis
      by (auto split: sum.splits)
  qed
qed


lemma default_block_len_pos: "1 \<le> default_block_len n"
  by (simp add: default_block_len_def)

lemma mbb_returns:
  assumes "block_len_ok block_len"
  shows "\<exists>r. moving_block_bootstrap_irf R lib df h B block_len random_state = Some r"
proof (cases "default_rng R random_state")
  case (Inl e)
  then show ?thesis by (simp add: moving_block_bootstrap_irf_def)
next
  case g0: (Inr g0)
  let ?bl = "case block_len of None \<Rightarrow> default_block_len (nrows df) | Some b \<Rightarrow> b"
  from assms have pos: "1 \<le> ?bl"
    by (auto simp: block_len_ok_def default_block_len_pos split: option.splits)
  show ?thesis
  proof (cases "mbb_base_frame df h")
    case (Inl e)
    with g0 show ?thesis by (simp add: moving_block_bootstrap_irf_def Let_def)
  next
    case (Inr base)
    from boot_loop_returns [OF pos, of R lib base "nat B" g0]
    obtain r where "boot_loop R lib base ?bl (nat B) g0 = Some r"
      by blast
    with g0 Inr show ?thesis
      by (cases r) (simp_all add: moving_block_bootstrap_irf_def Let_def)
  qed
qed

lemma mbb_negative_seed:
  assumes "random_state < 0"
  shows "moving_block_bootstrap_irf R lib df h B block_len random_state = Some (Inl ValueError)"
  using assms by (simp add: moving_block_bootstrap_irf_def default_rng_def)

lemma mbb_base_frame_panel6:
  "mbb_base_frame lp_panel6 1 =
     Inr \<lparr>nrows = 4,
          columns =
            [(''y_h'', [Fin 3, Fin (- 3), Fin 4, Fin 4]),
             (''d_A_t'', [Fin 0, Fin (1 / 10), Fin 0, Fin (1 / 10)]),
             (''d_D_star'', [Fin (- 1), Fin (- 1), Fin 3, Fin (- 2)]),
             (''regime_merge'', [Fin 0, Fin 0, Fin 1, Fin 1]),
             (''regime_dencun'', [Fin 0, Fin 0, Fin 0, Fin 0]),
             (''is_weekend'', [Fin 1, Fin 1, Fin 0, Fin 0]),
             (''is_month_end'', [Fin 0, Fin 0, Fin 0, Fin 1])]\<rparr>"
  by (simp add: mbb_base_frame_def lp_panel6_def lp_controls_def frame_eval
        cong: bind_err_weak_cong)


lemma mbb_panel6:
  "moving_block_bootstrap_irf counter_rng levels_lib lp_panel6 1 30 (Some 2) 42
     = Some (Inr (Fin (1 / 2), Fin (1 / 2)))"
  by (simp add: moving_block_bootstrap_irf_def default_rng_def mbb_base_frame_panel6
        draw_indices.simps rng_integers_def counter_rng_def iloc_rows_def iloc_pos_def
        select_rows_def mbb_beta_def sample_design_def lp_controls_def lib_eval get_or_def
        Let_def upto.simps numeral_eq_Suc
        cong: bind_err_weak_cong sum.case_cong_weak option.case_cong_weak)

end
